theory Spec2Isabelle
  imports Complex_Main
begin

section \<open>Array elements\<close>

text \<open>
  The arrays of \<^verbatim>\<open>LRDeconvolve.py\<close> hold numpy float64 values. An element is modelled as an
  exact real number or one of the three special values \<open>inf\<close>, \<open>-inf\<close> and \<open>nan\<close>.
  Arithmetic on finite values is exact (rounding, overflow and the sign of zero are not
  modelled); on the special values it follows IEEE 754 as numpy does: no operation raises,
  an invalid operation gives \<open>nan\<close> and \<open>nan\<close> is absorbing.
\<close>

datatype npfloat = Fin real | PInf | NInf | NaN

fun fneg :: "npfloat \<Rightarrow> npfloat" where
  "fneg (Fin a) = Fin (- a)"
| "fneg PInf = NInf"
| "fneg NInf = PInf"
| "fneg NaN = NaN"

fun fadd :: "npfloat \<Rightarrow> npfloat \<Rightarrow> npfloat" where
  "fadd (Fin a) (Fin b) = Fin (a + b)"
| "fadd NaN _ = NaN"
| "fadd _ NaN = NaN"
| "fadd PInf NInf = NaN"
| "fadd NInf PInf = NaN"
| "fadd PInf _ = PInf"
| "fadd _ PInf = PInf"
| "fadd NInf _ = NInf"
| "fadd _ NInf = NInf"

definition fsub :: "npfloat \<Rightarrow> npfloat \<Rightarrow> npfloat" where
  "fsub a b = fadd a (fneg b)"

text \<open>The sign of an infinity scaled by a finite factor; \<open>inf * 0\<close> is \<open>nan\<close>.\<close>

definition scale_inf :: "npfloat \<Rightarrow> real \<Rightarrow> npfloat" where
  "scale_inf i b = (if b = 0 then NaN else if 0 < b then i else fneg i)"

fun fmul :: "npfloat \<Rightarrow> npfloat \<Rightarrow> npfloat" where
  "fmul (Fin a) (Fin b) = Fin (a * b)"
| "fmul NaN _ = NaN"
| "fmul _ NaN = NaN"
| "fmul PInf (Fin b) = scale_inf PInf b"
| "fmul NInf (Fin b) = scale_inf NInf b"
| "fmul (Fin a) PInf = scale_inf PInf a"
| "fmul (Fin a) NInf = scale_inf NInf a"
| "fmul PInf PInf = PInf"
| "fmul NInf NInf = PInf"
| "fmul PInf NInf = NInf"
| "fmul NInf PInf = NInf"

text \<open>
  numpy division does not raise on a zero divisor: \<open>0/0\<close> is \<open>nan\<close> and \<open>a/0\<close> is an
  infinity with the sign of \<open>a\<close> (the zero is read as positive).
\<close>

fun fdiv :: "npfloat \<Rightarrow> npfloat \<Rightarrow> npfloat" where
  "fdiv (Fin a) (Fin b) =
     (if b \<noteq> 0 then Fin (a / b) else if a = 0 then NaN else if 0 < a then PInf else NInf)"
| "fdiv NaN _ = NaN"
| "fdiv _ NaN = NaN"
| "fdiv (Fin a) PInf = Fin 0"
| "fdiv (Fin a) NInf = Fin 0"
| "fdiv PInf (Fin b) = (if 0 \<le> b then PInf else NInf)"
| "fdiv NInf (Fin b) = (if 0 \<le> b then NInf else PInf)"
| "fdiv PInf PInf = NaN"
| "fdiv PInf NInf = NaN"
| "fdiv NInf PInf = NaN"
| "fdiv NInf NInf = NaN"

text \<open>\<^verbatim>\<open>np.sqrt\<close> of a negative number is \<open>nan\<close> (numpy warns, it does not raise).\<close>

fun fsqrt :: "npfloat \<Rightarrow> npfloat" where
  "fsqrt (Fin a) = (if 0 \<le> a then Fin (sqrt a) else NaN)"
| "fsqrt PInf = PInf"
| "fsqrt NInf = NaN"
| "fsqrt NaN = NaN"

fun fexp :: "npfloat \<Rightarrow> npfloat" where
  "fexp (Fin a) = Fin (exp a)"
| "fexp PInf = PInf"
| "fexp NInf = Fin 0"
| "fexp NaN = NaN"

fun isfinite :: "npfloat \<Rightarrow> bool" where
  "isfinite (Fin a) = True"
| "isfinite _ = False"


section \<open>Arrays and the library calls\<close>

datatype error = ValueError | AttributeError | UnboundLocalError | KeyError

type_synonym array = "npfloat list"

text \<open>
  A two-dimensional array is the list of its rows. An array without rows is read as
  having no columns; rows of different lengths are not an array, and numpy raises
  \<^verbatim>\<open>ValueError\<close> when asked to build one.
\<close>

type_synonym array2d = "npfloat list list"

definition andthen :: "error + 'a \<Rightarrow> ('a \<Rightarrow> error + 'b) \<Rightarrow> error + 'b" where
  "andthen r f = (case r of Inl e \<Rightarrow> Inl e | Inr v \<Rightarrow> f v)"

definition np_sum :: "array \<Rightarrow> npfloat" where
  "np_sum xs = foldr fadd xs (Fin 0)"

text \<open>\<^verbatim>\<open>np.mean\<close> of a one-dimensional array; the mean of an empty array is \<open>0/0 = nan\<close>.\<close>

definition np_mean :: "array \<Rightarrow> npfloat" where
  "np_mean xs = fdiv (np_sum xs) (Fin (real (length xs)))"

definition ncols :: "array2d \<Rightarrow> nat" where
  "ncols X = (case X of [] \<Rightarrow> 0 | r # _ \<Rightarrow> length r)"

definition rectangular :: "array2d \<Rightarrow> bool" where
  "rectangular X = list_all (\<lambda>r. length r = ncols X) X"

text \<open>\<^verbatim>\<open>np.mean(X, axis=0)\<close>: the mean over the rows, one value per column.\<close>

definition mean_axis0 :: "array2d \<Rightarrow> error + array" where
  "mean_axis0 X =
     (if rectangular X then Inr (map (\<lambda>j. np_mean (map (\<lambda>r. r ! j) X)) [0..<ncols X])
      else Inl ValueError)"

text \<open>
  An elementwise binary operation of numpy on one-dimensional arrays. Arrays of equal
  length are paired; an array of length one is broadcast against the other; any other
  pair of lengths raises \<^verbatim>\<open>ValueError\<close>.
\<close>

definition broadcast :: "(npfloat \<Rightarrow> npfloat \<Rightarrow> npfloat) \<Rightarrow> array \<Rightarrow> array \<Rightarrow> error + array" where
  "broadcast f a b =
     (if length a = length b then Inr (map2 f a b)
      else if length a = 1 then Inr (map (f (hd a)) b)
      else if length b = 1 then Inr (map (\<lambda>x. f x (hd b)) a)
      else Inl ValueError)"

text \<open>
  \<^verbatim>\<open>scipy.signal.convolve(a, v, mode='valid')\<close> on one-dimensional arrays. The shorter
  operand is the kernel whichever argument it is (scipy swaps the operands), entry \<open>k\<close>
  of the result is the sum of \<open>long[k + n - 1 - j] * short[j]\<close>, and there are
  \<open>|m - n| + 1\<close> entries. An empty operand is rejected (\<^verbatim>\<open>np.convolve\<close>, which scipy
  calls for one-dimensional arrays, raises \<^verbatim>\<open>ValueError\<close>). The sums are taken as they
  are written; for long arrays scipy computes them by Fourier transform, which differs
  by rounding on finite values.
\<close>

definition dot :: "array \<Rightarrow> array \<Rightarrow> npfloat" where
  "dot xs ys = np_sum (map2 fmul xs ys)"

definition convolve :: "array \<Rightarrow> array \<Rightarrow> error + array" where
  "convolve a v =
     (if a = [] \<or> v = [] then Inl ValueError
      else let long = (if length v \<le> length a then a else v);
               short = (if length v \<le> length a then v else a)
           in Inr (map (\<lambda>k. dot (take (length short) (drop k long)) (rev short))
                       [0..<length long - length short + 1]))"

text \<open>
  \<^verbatim>\<open>sklearn.metrics.mean_squared_error\<close>. sklearn validates its arguments first: arrays
  of different lengths, an empty array, and an array holding \<open>nan\<close> or an infinity all
  raise \<^verbatim>\<open>ValueError\<close>.
\<close>

definition mean_squared_error :: "array \<Rightarrow> array \<Rightarrow> error + npfloat" where
  "mean_squared_error y_true y_pred =
     (if length y_true \<noteq> length y_pred \<or> y_true = []
         \<or> \<not> list_all isfinite y_true \<or> \<not> list_all isfinite y_pred
      then Inl ValueError
      else Inr (np_mean (map2 (\<lambda>t p. fmul (fsub t p) (fsub t p)) y_true y_pred)))"

section \<open>The estimator \<^verbatim>\<open>LRDeconvolve\<close>\<close>

text \<open>
  An instance carries its configuration and, once set by \<^verbatim>\<open>fit\<close>, the fitted attributes
  \<^verbatim>\<open>measured_y_\<close>, \<^verbatim>\<open>deconvolved_y_\<close> and \<^verbatim>\<open>reconvolved_y_\<close>. An attribute that has not been
  assigned is \<open>None\<close>, and reading it raises \<^verbatim>\<open>AttributeError\<close>. (The fields are named
  \<open>measured_y_fitted\<close> and so on: a name cannot end with an underscore here.) The subclasses extend the
  record by their own parameters.
\<close>

record lrd =
  impulse_response_x :: array
  impulse_response_y :: array
  convolved_x :: array
  reconvolved_x :: array
  deconvolved_x :: array
  iterations :: int
  ground_truth_y :: "array option"
  measured_y_fitted :: "array option"
  deconvolved_y_fitted :: "array option"
  reconvolved_y_fitted :: "array option"

definition get_deconvolved_x :: "array \<Rightarrow> array \<Rightarrow> array" where
  "get_deconvolved_x x cx = (let average_impulse_x = np_mean x in map (\<lambda>c. fsub c average_impulse_x) cx)"

definition LRDeconvolve :: "array \<Rightarrow> array \<Rightarrow> array \<Rightarrow> int \<Rightarrow> array option \<Rightarrow> lrd" where
  "LRDeconvolve x y cx its gt =
     \<lparr>impulse_response_x = x, impulse_response_y = y, convolved_x = cx, reconvolved_x = cx,
      deconvolved_x = get_deconvolved_x x cx, iterations = its, ground_truth_y = gt,
      measured_y_fitted = None, deconvolved_y_fitted = None, reconvolved_y_fitted = None\<rparr>"

text \<open>
  \<^verbatim>\<open>_normalized_gaussian(x, mu, sigma)\<close>:
  \<^verbatim>\<open>exp((-1/2)*((x-mu)/sigma)**2)\<close> divided by the sum of its entries.
\<close>

definition normalized_gaussian :: "array \<Rightarrow> npfloat \<Rightarrow> npfloat \<Rightarrow> array" where
  "normalized_gaussian x mu sigma =
     (let norm_gauss = map (\<lambda>xi. fexp (fmul (Fin (- 1 / 2))
                         (fmul (fdiv (fsub xi mu) sigma) (fdiv (fsub xi mu) sigma)))) x
      in map (\<lambda>g. fdiv g (np_sum norm_gauss)) norm_gauss)"

text \<open>
  \<^verbatim>\<open>_deconvolution_guess\<close> computes a Gaussian of width 1 and discards it: the smoothed
  guess is commented out and the measured signal is returned as it is.
\<close>

definition deconvolution_guess :: "'a lrd_scheme \<Rightarrow> array \<Rightarrow> array" where
  "deconvolution_guess self measured_y =
     (let x = impulse_response_x self; gauss = normalized_gaussian x (np_mean x) (Fin 1)
      in measured_y)"

text \<open>
  The four lines every loop of the module starts with: forward convolution, ratio,
  convolution with the reversed impulse response, product.
\<close>

definition LR_update :: "array \<Rightarrow> array \<Rightarrow> array \<Rightarrow> error + array" where
  "LR_update h measured_y previous_O =
     andthen (convolve previous_O h) (\<lambda>I.
     andthen (broadcast fdiv measured_y I) (\<lambda>relative_blur.
     andthen (convolve relative_blur (rev h)) (\<lambda>correction_factor_estimate.
     broadcast fmul previous_O correction_factor_estimate)))"

text \<open>
  A scalar written by \<^verbatim>\<open>tf.summary.scalar(name, value, step)\<close>. \<^verbatim>\<open>_save_iteration_stats\<close>
  returns the scalars it has written, and the exception that stopped it, if any.
\<close>

type_synonym event = "string \<times> npfloat \<times> nat"

definition save_iteration_stats :: "'a lrd_scheme \<Rightarrow> array \<Rightarrow> nat \<Rightarrow> event list \<times> error option" where
  "save_iteration_stats self current_deconvolved iteration =
     (case convolve current_deconvolved (impulse_response_y self) of
        Inl e \<Rightarrow> ([], Some e)
      | Inr current_reconstruction \<Rightarrow>
     (case measured_y_fitted self of
        None \<Rightarrow> ([], Some AttributeError)
      | Some measured \<Rightarrow>
     (case mean_squared_error current_reconstruction measured of
        Inl e \<Rightarrow> ([], Some e)
      | Inr reconstruction_mse \<Rightarrow>
     (let ev1 = [(''reconstruction_mse'', reconstruction_mse, iteration)] in
      case ground_truth_y self of
        None \<Rightarrow> (ev1, None)
      | Some gt \<Rightarrow>
     (case mean_squared_error current_deconvolved gt of
        Inl e \<Rightarrow> (ev1, Some e)
      | Inr deconvolved_mse \<Rightarrow>
     (let ev2 = ev1 @ [(''deconvolved_mse'', deconvolved_mse, iteration)] in
      case convolve gt (impulse_response_y self) of
        Inl e \<Rightarrow> (ev2, Some e)
      | Inr ground_truth_reconvolved \<Rightarrow>
     (case mean_squared_error current_reconstruction ground_truth_reconvolved of
        Inl e \<Rightarrow> (ev2, Some e)
      | Inr reconvolved_mse \<Rightarrow>
          (ev2 @ [(''reconvolved_mse'', reconvolved_mse, iteration)], None))))))))"

text \<open>
  The loops of \<^verbatim>\<open>_LR\<close>, \<^verbatim>\<open>_LR_fister\<close> and \<^verbatim>\<open>_LRL2\<close> have one shape: for each iteration
  index, compute \<^verbatim>\<open>current_O\<close> from \<^verbatim>\<open>previous_O\<close>, assign it to \<^verbatim>\<open>previous_O\<close> and, where
  the loop logs, save the statistics. \<open>iterate\<close> is that loop; its state is
  \<^verbatim>\<open>previous_O\<close>, \<^verbatim>\<open>current_O\<close> (unbound before the first pass) and the scalars written so far.
  There is no test for convergence: the loop ends when the indices are used up or an
  exception is raised.
\<close>

fun iterate :: "(array \<Rightarrow> error + array) \<Rightarrow> (array \<Rightarrow> nat \<Rightarrow> event list \<times> error option) \<Rightarrow>
    nat list \<Rightarrow> array \<Rightarrow> array option \<Rightarrow> event list \<Rightarrow> event list \<times> (error + array option)" where
  "iterate update stats [] previous_O current_O written = (written, Inr current_O)"
| "iterate update stats (iteration # rest) previous_O current_O written =
     (case update previous_O of
        Inl e \<Rightarrow> (written, Inl e)
      | Inr cur \<Rightarrow>
         (case stats cur iteration of
            (evs, Some e) \<Rightarrow> (written @ evs, Inl e)
          | (evs, None) \<Rightarrow> iterate update stats rest cur (Some cur) (written @ evs)))"

definition no_stats :: "array \<Rightarrow> nat \<Rightarrow> event list \<times> error option" where
  "no_stats cur iteration = ([], None)"

text \<open>\<^verbatim>\<open>return current_O\<close>: the name is unbound when the loop body never ran.\<close>

definition return_current :: "event list \<times> (error + array option) \<Rightarrow> event list \<times> (error + array)" where
  "return_current r =
     (case r of (written, Inl e) \<Rightarrow> (written, Inl e)
              | (written, Inr None) \<Rightarrow> (written, Inl UnboundLocalError)
              | (written, Inr (Some cur)) \<Rightarrow> (written, Inr cur))"

definition LR :: "'a lrd_scheme \<Rightarrow> array \<Rightarrow> event list \<times> (error + array)" where
  "LR self measured_y =
     return_current
       (iterate (LR_update (impulse_response_y self) measured_y) (save_iteration_stats self)
          [0..<nat (iterations self)] (deconvolution_guess self measured_y) None [])"

text \<open>
  \<^verbatim>\<open>fit\<close> assigns the attributes one after the other, so an exception leaves the
  attributes assigned before it in place. The result is the instance after the call,
  the scalars written, and the exception raised (\<open>None\<close> when \<^verbatim>\<open>fit\<close> returned).
\<close>

definition fit :: "lrd \<Rightarrow> array2d \<Rightarrow> lrd \<times> event list \<times> error option" where
  "fit self X =
     (case mean_axis0 X of
        Inl e \<Rightarrow> (self, [], Some e)
      | Inr m \<Rightarrow>
         (let self1 = self\<lparr>measured_y_fitted := Some m\<rparr> in
          case LR self1 m of
            (written, Inl e) \<Rightarrow> (self1, written, Some e)
          | (written, Inr d) \<Rightarrow>
             (let self2 = self1\<lparr>deconvolved_y_fitted := Some d\<rparr> in
              case convolve d (impulse_response_y self2) of
                Inl e \<Rightarrow> (self2, written, Some e)
              | Inr r \<Rightarrow> (self2\<lparr>reconvolved_y_fitted := Some r\<rparr>, written, None))))"

definition predict :: "'a lrd_scheme \<Rightarrow> array2d \<Rightarrow> error + array" where
  "predict self X = (case deconvolved_y_fitted self of None \<Rightarrow> Inl AttributeError | Some d \<Rightarrow> Inr d)"

definition score :: "'a lrd_scheme \<Rightarrow> array2d \<Rightarrow> error + npfloat" where
  "score self X_test =
     andthen (mean_axis0 X_test) (\<lambda>mean_X_test.
       case reconvolved_y_fitted self of
         None \<Rightarrow> Inl AttributeError
       | Some r \<Rightarrow> andthen (mean_squared_error r mean_X_test) (\<lambda>mse. Inr (fmul (Fin (- 1)) mse)))"

section \<open>The estimator \<^verbatim>\<open>LRFisterDeconvolve\<close>\<close>

record fister = lrd +
  regularizer_width :: npfloat
  logging :: bool

definition LRFisterDeconvolve ::
    "array \<Rightarrow> array \<Rightarrow> array \<Rightarrow> npfloat \<Rightarrow> int \<Rightarrow> array option \<Rightarrow> bool \<Rightarrow> fister" where
  "LRFisterDeconvolve x y cx width its gt lg =
     \<lparr>impulse_response_x = x, impulse_response_y = y, convolved_x = cx, reconvolved_x = cx,
      deconvolved_x = get_deconvolved_x x cx, iterations = its, ground_truth_y = gt,
      measured_y_fitted = None, deconvolved_y_fitted = None, reconvolved_y_fitted = None,
      regularizer_width = width, logging = lg\<rparr>"

text \<open>
  One pass of the loop of \<^verbatim>\<open>_LR_fister\<close>: the four lines of the plain update, then the
  convolution with the Gaussian (the method \<^verbatim>\<open>_LR_fister_iteration\<close> holds the same lines).
\<close>

definition LR_fister_iteration :: "array \<Rightarrow> array \<Rightarrow> array \<Rightarrow> array \<Rightarrow> error + array" where
  "LR_fister_iteration h measured_y gauss previous_deconvolved =
     andthen (LR_update h measured_y previous_deconvolved) (\<lambda>current_deconvolved.
       convolve current_deconvolved gauss)"

text \<open>The two branches of \<^verbatim>\<open>_LR_fister\<close> differ only in saving the statistics.\<close>

definition LR_fister :: "fister \<Rightarrow> array \<Rightarrow> event list \<times> (error + array)" where
  "LR_fister self measured_y =
     (let gauss = normalized_gaussian (impulse_response_x self)
                    (np_mean (impulse_response_x self)) (regularizer_width self)
      in return_current
           (iterate (LR_fister_iteration (impulse_response_y self) measured_y gauss)
              (if logging self then save_iteration_stats self else no_stats)
              [0..<nat (iterations self)] (deconvolution_guess self measured_y) None []))"

definition fit_fister :: "fister \<Rightarrow> array2d \<Rightarrow> fister \<times> event list \<times> error option" where
  "fit_fister self X =
     (case mean_axis0 X of
        Inl e \<Rightarrow> (self, [], Some e)
      | Inr m \<Rightarrow>
         (let self1 = self\<lparr>measured_y_fitted := Some m\<rparr> in
          case LR_fister self1 m of
            (written, Inl e) \<Rightarrow> (self1, written, Some e)
          | (written, Inr d) \<Rightarrow>
             (let self2 = self1\<lparr>deconvolved_y_fitted := Some d\<rparr> in
              case convolve d (impulse_response_y self2) of
                Inl e \<Rightarrow> (self2, written, Some e)
              | Inr r \<Rightarrow> (self2\<lparr>reconvolved_y_fitted := Some r\<rparr>, written, None))))"

section \<open>The estimator \<^verbatim>\<open>LRL2Deconvolve\<close>\<close>

record l2 = lrd +
  alpha :: npfloat

definition LRL2Deconvolve :: "array \<Rightarrow> array \<Rightarrow> array \<Rightarrow> npfloat \<Rightarrow> int \<Rightarrow> array option \<Rightarrow> l2" where
  "LRL2Deconvolve x y cx a its gt =
     \<lparr>impulse_response_x = x, impulse_response_y = y, convolved_x = cx, reconvolved_x = cx,
      deconvolved_x = get_deconvolved_x x cx, iterations = its, ground_truth_y = gt,
      measured_y_fitted = None, deconvolved_y_fitted = None, reconvolved_y_fitted = None,
      alpha = a\<rparr>"

text \<open>\<^verbatim>\<open>(-1+np.sqrt(1+2*self.alpha*current_O))/self.alpha\<close>, elementwise.\<close>

definition l2_correction :: "npfloat \<Rightarrow> array \<Rightarrow> array" where
  "l2_correction a current_O =
     map (\<lambda>c. fdiv (fadd (Fin (- 1)) (fsqrt (fadd (Fin 1) (fmul (fmul (Fin 2) a) c)))) a) current_O"

definition LRL2_iteration :: "array \<Rightarrow> array \<Rightarrow> npfloat \<Rightarrow> array \<Rightarrow> error + array" where
  "LRL2_iteration h measured_y a previous_O =
     andthen (LR_update h measured_y previous_O) (\<lambda>current_O. Inr (l2_correction a current_O))"

definition LRL2 :: "l2 \<Rightarrow> array \<Rightarrow> event list \<times> (error + array)" where
  "LRL2 self measured_y =
     return_current
       (iterate (LRL2_iteration (impulse_response_y self) measured_y (alpha self)) no_stats
          [0..<nat (iterations self)] (deconvolution_guess self measured_y) None [])"

text \<open>\<^verbatim>\<open>LRL2Deconvolve.fit\<close> keeps the mean in a local variable: \<^verbatim>\<open>measured_y_\<close> is not assigned.\<close>

definition fit_l2 :: "l2 \<Rightarrow> array2d \<Rightarrow> l2 \<times> event list \<times> error option" where
  "fit_l2 self X =
     (case mean_axis0 X of
        Inl e \<Rightarrow> (self, [], Some e)
      | Inr measured_y \<Rightarrow>
         (case LRL2 self measured_y of
            (written, Inl e) \<Rightarrow> (self, written, Some e)
          | (written, Inr d) \<Rightarrow>
             (let self2 = self\<lparr>deconvolved_y_fitted := Some d\<rparr> in
              case convolve d (impulse_response_y self2) of
                Inl e \<Rightarrow> (self2, written, Some e)
              | Inr r \<Rightarrow> (self2\<lparr>reconvolved_y_fitted := Some r\<rparr>, written, None))))"

section \<open>The selector \<^verbatim>\<open>LRFisterGrid\<close>\<close>

subsection \<open>Scorers\<close>

text \<open>
  A scorer is called by the search as \<^verbatim>\<open>scorer(estimator, X)\<close> on a fitted estimator.
  The module \<^verbatim>\<open>deconvolution_metrics\<close> that defines the two scorers is not among the
  sources, so \<^verbatim>\<open>LRFisterGrid.fit\<close> takes them as parameters here.
\<close>

type_synonym scorer = "fister \<Rightarrow> array2d \<Rightarrow> error + npfloat"

record scorers =
  neg_deconvolved_mse :: scorer
  neg_reconvolved_mse :: scorer

text \<open>
  Modelled from the spec: the scorers of the missing module \<^verbatim>\<open>deconvolution_metrics\<close>.
  ``reconvolved'' is the negative mean squared error between the reconvolved signal and
  the averaged held-out measurement; ``deconvolved'' is the negative mean squared error
  between the deconvolved signal and the ground truth.
\<close>

definition spec_neg_reconvolved_mse :: scorer where
  "spec_neg_reconvolved_mse estimator X =
     andthen (mean_axis0 X) (\<lambda>measured.
       case reconvolved_y_fitted estimator of
         None \<Rightarrow> Inl AttributeError
       | Some r \<Rightarrow> andthen (mean_squared_error r measured) (\<lambda>v. Inr (fneg v)))"

definition spec_neg_deconvolved_mse :: scorer where
  "spec_neg_deconvolved_mse estimator X =
     (case (deconvolved_y_fitted estimator, ground_truth_y estimator) of
        (Some d, Some gt) \<Rightarrow> andthen (mean_squared_error d gt) (\<lambda>v. Inr (fneg v))
      | (None, _) \<Rightarrow> Inl AttributeError
      | (_, None) \<Rightarrow> Inl ValueError)"

definition spec_scorers :: scorers where
  "spec_scorers = \<lparr>neg_deconvolved_mse = spec_neg_deconvolved_mse,
                    neg_reconvolved_mse = spec_neg_reconvolved_mse\<rparr>"

subsection \<open>The search engine \<^verbatim>\<open>GridSearchCV\<close>\<close>

text \<open>
  \<^verbatim>\<open>sklearn.model_selection.GridSearchCV\<close> as \<^verbatim>\<open>LRFisterGrid.fit\<close> configures it: one
  candidate for each width, in the order of the list; \<^verbatim>\<open>cv=5\<close> is \<^verbatim>\<open>KFold(5)\<close> without
  shuffling; several named scorers; train scores are kept; the search refits on the
  metric named by \<^verbatim>\<open>refit\<close>; \<^verbatim>\<open>error_score\<close> has its default \<open>nan\<close>.
\<close>

text \<open>
  \<^verbatim>\<open>KFold\<close>: the first \<open>n mod k\<close> folds have \<open>n div k + 1\<close> rows, the others \<open>n div k\<close>; the
  folds are consecutive blocks of rows, each the test set of one split. Fewer rows than
  folds is a \<^verbatim>\<open>ValueError\<close>.
\<close>

definition kfold_sizes :: "nat \<Rightarrow> nat \<Rightarrow> nat list" where
  "kfold_sizes k n = map (\<lambda>i. n div k + (if i < n mod k then 1 else 0)) [0..<k]"

fun kfold_tests :: "nat \<Rightarrow> nat list \<Rightarrow> nat list list" where
  "kfold_tests start [] = []"
| "kfold_tests start (n # sizes) = [start..<start + n] # kfold_tests (start + n) sizes"

definition kfold_split :: "nat \<Rightarrow> nat \<Rightarrow> error + (nat list \<times> nat list) list" where
  "kfold_split k n =
     (if n < k then Inl ValueError
      else Inr (map (\<lambda>test. (filter (\<lambda>i. i \<notin> set test) [0..<n], test))
                    (kfold_tests 0 (kfold_sizes k n))))"

definition take_rows :: "array2d \<Rightarrow> nat list \<Rightarrow> array2d" where
  "take_rows X indices = map (\<lambda>i. X ! i) indices"

text \<open>
  \<^verbatim>\<open>clone(estimator).set_params(regularizer_width=w)\<close>: a new, unfitted instance with
  the parameters of the prototype and the width of the candidate.
\<close>

definition clone_with :: "fister \<Rightarrow> npfloat \<Rightarrow> fister" where
  "clone_with estimator w =
     LRFisterDeconvolve (impulse_response_x estimator) (impulse_response_y estimator)
       (convolved_x estimator) w (iterations estimator) (ground_truth_y estimator)
       (logging estimator)"

text \<open>
  One fit of one candidate on one split: whether the fit returned, and the test and
  train score of every scorer. A fit that raises scores \<open>nan\<close> everywhere; a scorer that
  raises scores \<open>nan\<close>.
\<close>

definition score_or_nan :: "scorer \<Rightarrow> fister \<Rightarrow> array2d \<Rightarrow> npfloat" where
  "score_or_nan sc fitted X = (case sc fitted X of Inl e \<Rightarrow> NaN | Inr v \<Rightarrow> v)"

definition fit_and_score ::
    "(string \<times> scorer) list \<Rightarrow> fister \<Rightarrow> array2d \<Rightarrow> nat list \<times> nat list
     \<Rightarrow> bool \<times> npfloat list \<times> npfloat list" where
  "fit_and_score scoring estimator X split =
     (case fit_fister estimator (take_rows X (fst split)) of
        (fitted, written, Some e) \<Rightarrow> (False, map (\<lambda>s. NaN) scoring, map (\<lambda>s. NaN) scoring)
      | (fitted, written, None) \<Rightarrow>
          (True,
           map (\<lambda>s. score_or_nan (snd s) fitted (take_rows X (snd split))) scoring,
           map (\<lambda>s. score_or_nan (snd s) fitted (take_rows X (fst split))) scoring))"

text \<open>\<^verbatim>\<open>np.std\<close>: the square root of the mean squared deviation from the mean.\<close>

definition np_std :: "array \<Rightarrow> npfloat" where
  "np_std xs = (let mu = np_mean xs in fsqrt (np_mean (map (\<lambda>x. fmul (fsub x mu) (fsub x mu)) xs)))"

text \<open>
  The part of \<^verbatim>\<open>cv_results_\<close> that \<^verbatim>\<open>LRFisterGrid.fit\<close> reads: for every scorer, in the order
  of the scoring dictionary, the mean and the standard deviation over the splits of the
  test and of the train scores, one entry per candidate. (Timings, parameters, ranks and
  the scores of the single splits are left out.)
\<close>

definition scores_of :: "(bool \<times> npfloat list \<times> npfloat list) list list \<Rightarrow> bool \<Rightarrow> nat \<Rightarrow> array list" where
  "scores_of out test k =
     map (\<lambda>candidate. map (\<lambda>r. (if test then fst (snd r) else snd (snd r)) ! k) candidate) out"

definition cv_results_of ::
    "(string \<times> scorer) list \<Rightarrow> (bool \<times> npfloat list \<times> npfloat list) list list
     \<Rightarrow> (string \<times> array) list" where
  "cv_results_of scoring out =
     concat (map (\<lambda>k. let name = fst (scoring ! k) in
       [(''mean_test_'' @ name, map np_mean (scores_of out True k)),
        (''std_test_'' @ name, map np_std (scores_of out True k)),
        (''mean_train_'' @ name, map np_mean (scores_of out False k)),
        (''std_train_'' @ name, map np_std (scores_of out False k))]) [0..<length scoring])"

text \<open>
  The ranking of the mean test scores: a larger mean is better, and \<open>nan\<close> is replaced by
  the smallest mean minus one, so it is worse than every number. \<^verbatim>\<open>best_index_\<close> is the
  first candidate of the best rank.
\<close>

fun strictly_better :: "npfloat \<Rightarrow> npfloat \<Rightarrow> bool" where
  "strictly_better (Fin a) (Fin b) = (b < a)"
| "strictly_better PInf PInf = False"
| "strictly_better PInf _ = True"
| "strictly_better (Fin a) NInf = True"
| "strictly_better (Fin a) NaN = True"
| "strictly_better _ _ = False"

fun first_best :: "npfloat list \<Rightarrow> npfloat list \<Rightarrow> nat \<Rightarrow> nat \<Rightarrow> nat" where
  "first_best means [] best i = best"
| "first_best means (v # rest) best i =
     first_best means rest (if strictly_better v (means ! best) then i else best) (Suc i)"

definition argbest :: "npfloat list \<Rightarrow> nat" where
  "argbest means = first_best means means 0 0"

text \<open>
  \<^verbatim>\<open>GridSearchCV.fit\<close>. An empty grid, a refit metric that is not a scorer, and fewer rows
  than folds are rejected; so is a search in which every fit raised. Otherwise the
  candidate of the best mean test score of the refit metric is fitted again on all
  rows, and an exception of that fit is not caught.
\<close>

record gridsearch =
  best_estimator :: fister
  best_index :: nat
  cv_results :: "(string \<times> array) list"

definition GridSearchCV_fit ::
    "fister \<Rightarrow> npfloat list \<Rightarrow> (string \<times> scorer) list \<Rightarrow> string \<Rightarrow> array2d
     \<Rightarrow> error + gridsearch" where
  "GridSearchCV_fit estimator widths scoring refit X =
     (if widths = [] \<or> refit \<notin> set (map fst scoring) then Inl ValueError
      else case kfold_split 5 (length X) of
        Inl e \<Rightarrow> Inl e
      | Inr splits \<Rightarrow>
         (let out = map (\<lambda>w. map (fit_and_score scoring (clone_with estimator w) X) splits) widths;
              results = cv_results_of scoring out
          in if list_all (list_all (\<lambda>r. \<not> fst r)) out then Inl ValueError
             else case map_of results (''mean_test_'' @ refit) of
               None \<Rightarrow> Inl ValueError
             | Some means \<Rightarrow>
                (let b = argbest means in
                 case fit_fister (clone_with estimator (widths ! b)) X of
                   (fitted, written, Some e) \<Rightarrow> Inl e
                 | (fitted, written, None) \<Rightarrow>
                     Inr \<lparr>best_estimator = fitted, best_index = b, cv_results = results\<rparr>)))"

subsection \<open>The class\<close>

text \<open>
  An instance of \<^verbatim>\<open>LRFisterGrid\<close> has the attributes of an \<^verbatim>\<open>LRDeconvolve\<close> instance, the
  grid of widths, and the tables its \<^verbatim>\<open>fit\<close> stores.
\<close>

record fister_grid = lrd +
  regularizer_widths :: "npfloat list"
  gridsearch_cv_results_fitted :: "(string \<times> array) list option"
  deconvolved_mse_fitted :: "array option"
  deconvolved_mse_std_fitted :: "array option"
  reconvolved_mse_fitted :: "array option"
  reconvolved_mse_std_fitted :: "array option"
  cv_fitted :: "array option"
  cv_std_fitted :: "array option"

definition LRFisterGrid ::
    "array \<Rightarrow> array \<Rightarrow> array \<Rightarrow> npfloat list \<Rightarrow> int \<Rightarrow> array option \<Rightarrow> fister_grid" where
  "LRFisterGrid x y cx widths its gt =
     \<lparr>impulse_response_x = x, impulse_response_y = y, convolved_x = cx, reconvolved_x = cx,
      deconvolved_x = get_deconvolved_x x cx, iterations = its, ground_truth_y = gt,
      measured_y_fitted = None, deconvolved_y_fitted = None, reconvolved_y_fitted = None,
      regularizer_widths = widths, gridsearch_cv_results_fitted = None,
      deconvolved_mse_fitted = None, deconvolved_mse_std_fitted = None,
      reconvolved_mse_fitted = None, reconvolved_mse_std_fitted = None,
      cv_fitted = None, cv_std_fitted = None\<rparr>"

text \<open>\<^verbatim>\<open>cv_results_[key]\<close>: a missing key raises \<^verbatim>\<open>KeyError\<close>.\<close>

definition getitem :: "(string \<times> array) list \<Rightarrow> string \<Rightarrow> error + array" where
  "getitem d key = (case map_of d key of None \<Rightarrow> Inl KeyError | Some v \<Rightarrow> Inr v)"

definition negated :: "array \<Rightarrow> array" where
  "negated a = map (fmul (Fin (- 1))) a"

text \<open>
  \<^verbatim>\<open>LRFisterGrid.fit\<close>. The prototype is built with the default width 0.05 and without
  logging. The statements after the search run one after the other, so an exception
  leaves the attributes assigned before it in place.
\<close>

definition grid_scoring :: "scorers \<Rightarrow> array option \<Rightarrow> (string \<times> scorer) list" where
  "grid_scoring sc gt =
     (if gt \<noteq> None
      then [(''deconvolved'', neg_deconvolved_mse sc), (''reconvolved'', neg_reconvolved_mse sc)]
      else [(''reconvolved'', neg_reconvolved_mse sc)])"

definition grid_store :: "fister_grid \<Rightarrow> (string \<times> array) list \<Rightarrow> fister_grid \<times> error option" where
  "grid_store self3 results =
     (let self4 = self3\<lparr>gridsearch_cv_results_fitted := Some results\<rparr> in
      case getitem results ''mean_test_deconvolved'' of
        Inl e \<Rightarrow> (self4, Some e)
      | Inr v5 \<Rightarrow>
     (let self5 = self4\<lparr>deconvolved_mse_fitted := Some (negated v5)\<rparr> in
      case getitem results ''std_test_deconvolved'' of
        Inl e \<Rightarrow> (self5, Some e)
      | Inr v6 \<Rightarrow>
     (let self6 = self5\<lparr>deconvolved_mse_std_fitted := Some v6\<rparr> in
      case getitem results ''mean_train_reconvolved'' of
        Inl e \<Rightarrow> (self6, Some e)
      | Inr v7 \<Rightarrow>
     (let self7 = self6\<lparr>reconvolved_mse_fitted := Some (negated v7)\<rparr> in
      case getitem results ''std_train_reconvolved'' of
        Inl e \<Rightarrow> (self7, Some e)
      | Inr v8 \<Rightarrow>
     (let self8 = self7\<lparr>reconvolved_mse_std_fitted := Some v8\<rparr> in
      case getitem results ''mean_test_reconvolved'' of
        Inl e \<Rightarrow> (self8, Some e)
      | Inr v9 \<Rightarrow>
     (let self9 = self8\<lparr>cv_fitted := Some (negated v9)\<rparr> in
      case getitem results ''std_test_reconvolved'' of
        Inl e \<Rightarrow> (self9, Some e)
      | Inr v10 \<Rightarrow> (self9\<lparr>cv_std_fitted := Some v10\<rparr>, None)))))))"

definition grid_fit :: "scorers \<Rightarrow> fister_grid \<Rightarrow> array2d \<Rightarrow> fister_grid \<times> error option" where
  "grid_fit sc self X =
     (let deconvolver = LRFisterDeconvolve (impulse_response_x self) (impulse_response_y self)
                          (convolved_x self) (Fin (5 / 100)) (iterations self)
                          (ground_truth_y self) False;
          scoring = grid_scoring sc (ground_truth_y self)
      in case GridSearchCV_fit deconvolver (regularizer_widths self) scoring ''reconvolved'' X of
        Inl e \<Rightarrow> (self, Some e)
      | Inr deconvolver_gs \<Rightarrow>
     (case mean_axis0 X of
        Inl e \<Rightarrow> (self, Some e)
      | Inr m \<Rightarrow>
     (let self1 = self\<lparr>measured_y_fitted := Some m\<rparr> in
      case deconvolved_y_fitted (best_estimator deconvolver_gs) of
        None \<Rightarrow> (self1, Some AttributeError)
      | Some d \<Rightarrow>
     (let self2 = self1\<lparr>deconvolved_y_fitted := Some d\<rparr> in
      case convolve d (impulse_response_y self2) of
        Inl e \<Rightarrow> (self2, Some e)
      | Inr r \<Rightarrow>
          grid_store (self2\<lparr>reconvolved_y_fitted := Some r\<rparr>) (cv_results deconvolver_gs)))))"

section \<open>The recurrence of the specification\<close>

text \<open>
  The specification states the kernel as a recurrence on arrays, in its own words:
  a valid-mode convolution keeps the positions where the two signals overlap fully
  (\<open>m - n + 1\<close> of them for lengths \<open>m \<ge> n\<close>), and ratio and product are elementwise.
\<close>

definition valid_convolution :: "array \<Rightarrow> array \<Rightarrow> array" where
  "valid_convolution f g =
     (let long = (if length g \<le> length f then f else g);
          short = (if length g \<le> length f then g else f);
          m = length long; n = length short
      in map (\<lambda>k. np_sum (map (\<lambda>i. fmul (long ! (k + i)) (short ! (n - 1 - i))) [0..<n]))
             [0..<m - n + 1])"


text \<open>The steps at which a scalar of a given name was written.\<close>

definition steps_of :: "string \<Rightarrow> event list \<Rightarrow> nat list" where
  "steps_of name written = map (\<lambda>e. snd (snd e)) (filter (\<lambda>e. fst e = name) written)"

text \<open>
  A recurrence \<open>O_{k+1} = step(O_k)\<close> whose step may fail, started at \<open>O_0\<close>.
\<close>

fun recurrence :: "(array \<Rightarrow> error + array) \<Rightarrow> array \<Rightarrow> nat \<Rightarrow> error + array" where
  "recurrence step O_0 0 = Inr O_0"
| "recurrence step O_0 (Suc k) = andthen (recurrence step O_0 k) step"


text \<open>The mean squared error of two sequences of equal length.\<close>

definition mse :: "real list \<Rightarrow> real list \<Rightarrow> real" where
  "mse a b = (\<Sum>i<length a. (a ! i - b ! i) ^ 2) / real (length a)"





text \<open>
  Inputs on which the iteration is well defined: a batch with at least one row and one
  column whose entries are positive numbers (so is its mean), and with it a positive
  impulse response of length \<open>2 n - 1\<close> for \<open>n\<close> columns, the length for which every array
  of the loop has \<open>n\<close> entries.
\<close>

fun positive :: "npfloat \<Rightarrow> bool" where
  "positive (Fin a) = (0 < a)"
| "positive _ = False"

definition positive_batch :: "array2d \<Rightarrow> bool" where
  "positive_batch X \<longleftrightarrow> X \<noteq> [] \<and> rectangular X \<and> 0 < ncols X \<and> list_all (list_all positive) X"

section \<open>Example inputs\<close>

definition example_lr :: lrd where
  "example_lr = LRDeconvolve [Fin (- 1), Fin 0, Fin 1] [Fin 1, Fin 0, Fin 1] [Fin 0, Fin 1] 2 None"

definition example_fister :: fister where
  "example_fister = LRFisterDeconvolve [Fin (- 1), Fin 0, Fin 1] [Fin 1, Fin 0, Fin 1]
      [Fin 0, Fin 1] (Fin 1) 1 None False"

definition example_l2 :: l2 where
  "example_l2 = LRL2Deconvolve [Fin (- 1), Fin 0, Fin 1] [Fin 1, Fin 0, Fin 1]
      [Fin 0, Fin 1] (Fin 12) 1 None"

definition example_l2_negative :: l2 where
  "example_l2_negative = LRL2Deconvolve [Fin 0] [Fin 1] [Fin 0] (Fin (- 1)) 1 None"

definition example_batch :: array2d where
  "example_batch = [[Fin 1, Fin 1], [Fin 1, Fin 3]]"

text \<open>
  The concrete scenario of the specification: its impulse response, its true signal,
  the measured signal it gives, and the valid-mode convolution of the two.
\<close>

definition spec_h :: array where "spec_h = [Fin (1 / 4), Fin (1 / 2), Fin (1 / 4)]"

definition spec_S :: array where "spec_S = [Fin 0, Fin 0, Fin 1, Fin 0, Fin 0]"

definition spec_M :: array where "spec_M = [Fin (1 / 4), Fin (3 / 4), Fin (1 / 4)]"

definition true_M :: array where "true_M = [Fin (1 / 4), Fin (1 / 2), Fin (1 / 4)]"

definition example_scenario :: "array \<Rightarrow> lrd" where
  "example_scenario cx = LRDeconvolve [Fin (- 1), Fin 0, Fin 1] spec_h cx 50 None"

definition example_lr_fitted :: lrd where
  "example_lr_fitted = example_lr\<lparr>measured_y_fitted := Some [Fin 1, Fin 2],
      deconvolved_y_fitted := Some [Fin 2, Fin 1], reconvolved_y_fitted := Some [Fin 1, Fin 2]\<rparr>"

definition example_l2_square :: l2 where
  "example_l2_square = LRL2Deconvolve [Fin (- 1), Fin 0, Fin 1] spec_h [Fin (- 1), Fin 0, Fin 1]
      (Fin 16) 1 None"


definition example_rows :: array2d where
  "example_rows = [[Fin 1], [Fin 2], [Fin 3], [Fin 4], [Fin 5]]"

definition example_grid_blind :: fister_grid where
  "example_grid_blind = LRFisterGrid [Fin 0] [Fin 1] [Fin 0] [Fin (1 / 100), Fin (1 / 10)] 1 None"




definition example_l2_positive :: l2 where
  "example_l2_positive = LRL2Deconvolve [Fin (- 1), Fin 0, Fin 1] [Fin 2, Fin 1, Fin 1]
      [Fin 0, Fin 1] (Fin 12) 1 None"

section \<open>Library calls and the loop\<close>

lemma andthen_Inr: "andthen r f = Inr y \<longleftrightarrow> (\<exists>v. r = Inr v \<and> f v = Inr y)"
  by (cases r) (simp_all add: andthen_def)

lemma dot_nth:
  "k + length short \<le> length long \<Longrightarrow>
   dot (take (length short) (drop k long)) (rev short) =
   np_sum (map (\<lambda>i. fmul (long ! (k + i)) (short ! (length short - 1 - i))) [0..<length short])"
  unfolding dot_def
  by (rule arg_cong [where f = np_sum], rule nth_equalityI) (simp_all add: rev_nth)

lemma convolve_eq:
  "a \<noteq> [] \<Longrightarrow> v \<noteq> [] \<Longrightarrow> convolve a v = Inr (valid_convolution a v)"
proof -
  have *: "map (\<lambda>k. dot (take (length short) (drop k long)) (rev short))
             [0..<length long - length short + 1] =
           map (\<lambda>k. np_sum (map (\<lambda>i. fmul (long ! (k + i)) (short ! (length short - 1 - i)))
                                [0..<length short]))
             [0..<length long - length short + 1]"
    if "length short \<le> length long" for long short :: array
    using that by (intro map_cong refl dot_nth) auto
  assume ne: "a \<noteq> []" "v \<noteq> []"
  show ?thesis
  proof (cases "length v \<le> length a")
    case True
    have "convolve a v = Inr (map (\<lambda>k. dot (take (length v) (drop k a)) (rev v))
                                [0..<length a - length v + 1])"
      using ne True by (simp only: convolve_def Let_def if_True if_False simp_thms)
    moreover have "valid_convolution a v =
        map (\<lambda>k. np_sum (map (\<lambda>i. fmul (a ! (k + i)) (v ! (length v - 1 - i))) [0..<length v]))
            [0..<length a - length v + 1]"
      using True by (simp only: valid_convolution_def Let_def if_True)
    ultimately show ?thesis using * [OF True] by (simp only:)
  next
    case False
    then have le: "length a \<le> length v" by simp
    have "convolve a v = Inr (map (\<lambda>k. dot (take (length a) (drop k v)) (rev a))
                                [0..<length v - length a + 1])"
      using ne False by (simp only: convolve_def Let_def if_True if_False simp_thms)
    moreover have "valid_convolution a v =
        map (\<lambda>k. np_sum (map (\<lambda>i. fmul (v ! (k + i)) (a ! (length a - 1 - i))) [0..<length a]))
            [0..<length v - length a + 1]"
      using False by (simp only: valid_convolution_def Let_def if_False)
    ultimately show ?thesis using * [OF le] by (simp only:)
  qed
qed

lemma length_valid_convolution:
  "length (valid_convolution a v) = max (length a) (length v) - min (length a) (length v) + 1"
  by (simp add: valid_convolution_def Let_def max_def min_def)

lemma convolve_Inr:
  assumes "convolve a v = Inr r"
  shows "a \<noteq> [] \<and> v \<noteq> [] \<and> r = valid_convolution a v"
proof -
  from assms have ne: "a \<noteq> []" "v \<noteq> []"
    by (auto simp: convolve_def split: if_splits)
  with assms show ?thesis by (simp add: convolve_eq)
qed

lemma broadcast_Inr:
  assumes "broadcast f a b = Inr r"
  shows "(length a = length b \<and> r = map2 f a b)
       \<or> (length a \<noteq> length b \<and> length a = 1 \<and> r = map (f (hd a)) b)
       \<or> (length a \<noteq> length b \<and> length a \<noteq> 1 \<and> length b = 1 \<and> r = map (\<lambda>x. f x (hd b)) a)"
  using assms by (auto simp: broadcast_def split: if_splits)

lemma LR_update_ratio_lengths:
  assumes upd: "LR_update h m prev = Inr cur"
    and len: "length prev = length m"
    and rec: "convolve cur h = Inr r" "length r = length m"
  shows "length (valid_convolution prev h) = length m"
proof -
  from upd obtain I rb c where
    I: "convolve prev h = Inr I" and rb: "broadcast fdiv m I = Inr rb"
    and c: "convolve rb (rev h) = Inr c" and cur: "broadcast fmul prev c = Inr cur"
    by (auto simp: LR_update_def andthen_Inr)
  from I have Ieq: "I = valid_convolution prev h" and hne: "h \<noteq> []" and pne: "prev \<noteq> []"
    using convolve_Inr by blast+
  from c have ceq: "c = valid_convolution rb (rev h)" using convolve_Inr by blast
  from rec have req: "r = valid_convolution cur h" using convolve_Inr by blast
  let ?a = "length m" and ?b = "length h"
  have a1: "1 \<le> ?a" using pne len by (cases prev) auto
  have b1: "1 \<le> ?b" using hne by (cases h) auto
  have lI: "length I = max ?a ?b - min ?a ?b + 1"
    by (simp add: Ieq length_valid_convolution len)
  have lc: "length c = max (length rb) ?b - min (length rb) ?b + 1"
    by (simp add: ceq length_valid_convolution)
  have lr: "max (length cur) ?b - min (length cur) ?b + 1 = ?a"
    using rec(2) by (simp add: req length_valid_convolution)
  from broadcast_Inr [OF rb] consider
      (eq) "length I = ?a"
    | (m1) "length I \<noteq> ?a" "?a = 1" "length rb = length I"
    | (I1) "length I \<noteq> ?a" "?a \<noteq> 1" "length I = 1" "length rb = ?a"
    by auto
  then have "length I = ?a"
  proof cases
    case eq
    then show ?thesis .
  next
    case m1
    then have "?b \<noteq> 1" using lI by (auto simp: max_def min_def split: if_splits)
    have "length I = ?b" using lI m1(2) b1 by (simp add: max_def min_def)
    then have "length c = 1" using lc m1(3) by simp
    with broadcast_Inr [OF cur] len m1(2) have "length cur = 1" by auto
    with lr m1(2) b1 have "?b = 1" by (simp add: max_def min_def split: if_splits)
    with \<open>?b \<noteq> 1\<close> show ?thesis by simp
  next
    case I1
    then have ab: "?a = ?b" using lI a1 b1 by (simp add: max_def min_def split: if_splits)
    then have "length c = 1" using lc I1(4) by simp
    with broadcast_Inr [OF cur] len I1(2) have "length cur = ?a" by auto
    with lr ab I1(2) show ?thesis by simp
  qed
  then show ?thesis by (simp add: Ieq)
qed





lemma save_iteration_stats_ok:
  assumes "save_iteration_stats self cur it = (evs, None)"
  shows "\<exists>r m. convolve cur (impulse_response_y self) = Inr r \<and> measured_y_fitted self = Some m
           \<and> length r = length m" 
    and "steps_of ''reconstruction_mse'' evs = [it]"
  using assms
  by (auto simp: save_iteration_stats_def mean_squared_error_def steps_of_def Let_def
           split: sum.splits option.splits if_splits)

lemma return_current_Inr:
  "return_current r = (written, Inr d) \<longleftrightarrow> r = (written, Inr (Some d))"
  by (auto simp: return_current_def split: prod.splits sum.splits option.splits)


lemmas eval_simps = fit_def LR_def iterate.simps save_iteration_stats_def LR_update_def convolve_def
  broadcast_def dot_def np_sum_def np_mean_def mean_axis0_def rectangular_def ncols_def
  mean_squared_error_def andthen_def return_current_def deconvolution_guess_def Let_def
  fsub_def LRDeconvolve_def get_deconvolved_x_def upt_rec

lemma fit_example_lr: "fit example_lr example_batch =
   (example_lr\<lparr>measured_y_fitted := Some [Fin 1, Fin 2], deconvolved_y_fitted := Some [Fin 2, Fin 1],
          reconvolved_y_fitted := Some [Fin 1, Fin 2]\<rparr>,
    [(''reconstruction_mse'', Fin 0, 0), (''reconstruction_mse'', Fin 0, 1)], None)"
  by (simp add: example_lr_def example_batch_def eval_simps)






lemma andthen_assoc: "andthen (andthen r f) g = andthen r (\<lambda>x. andthen (f x) g)"
  by (cases r) (simp_all add: andthen_def)

lemma recurrence_front:
  "recurrence step O_0 (Suc k) = andthen (step O_0) (\<lambda>O_1. recurrence step O_1 k)"
proof (induction k)
  case 0
  show ?case by (cases "step O_0") (simp_all add: andthen_def)
next
  case (Suc k)
  have "recurrence step O_0 (Suc (Suc k)) = andthen (recurrence step O_0 (Suc k)) step" by simp
  also have "\<dots> = andthen (andthen (step O_0) (\<lambda>O_1. recurrence step O_1 k)) step"
    by (simp only: Suc.IH)
  also have "\<dots> = andthen (step O_0) (\<lambda>O_1. recurrence step O_1 (Suc k))"
    by (simp add: andthen_assoc)
  finally show ?case .
qed

lemma iterate_recurrence:
  assumes "iterate update stats its prev cur written = (written', Inr res)"
  shows "(its = [] \<longrightarrow> res = cur) \<and>
         (its \<noteq> [] \<longrightarrow> (\<exists>d. res = Some d \<and> recurrence update prev (length its) = Inr d))"
  using assms
proof (induction its arbitrary: prev cur written)
  case Nil
  then show ?case by simp
next
  case (Cons it rest)
  from Cons.prems obtain c evs where
    u: "update prev = Inr c"
    and r: "iterate update stats rest c (Some c) (written @ evs) = (written', Inr res)"
    by (auto split: sum.splits prod.splits option.splits)
  from Cons.IH [OF r] have "\<exists>d. res = Some d \<and> recurrence update c (length rest) = Inr d"
    by (cases "rest = []") auto
  then show ?case
    by (simp only: length_Cons recurrence_front u) (simp add: andthen_def)
qed

lemma iterate_runs:
  assumes "return_current (iterate update stats [0..<nat n] prev None []) = (written, Inr d)"
  shows "1 \<le> n \<and> recurrence update prev (nat n) = Inr d"
proof -
  from assms have it: "iterate update stats [0..<nat n] prev None [] = (written, Inr (Some d))"
    by (simp add: return_current_Inr)
  from iterate_recurrence [OF it] show ?thesis by (auto split: if_splits)
qed


lemma LR_fister_iteration_Inr:
  assumes "LR_fister_iteration h m G prev = Inr cur"
  shows "\<exists>U. LR_update h m prev = Inr U \<and> cur = valid_convolution U G"
  using assms by (auto simp: LR_fister_iteration_def andthen_Inr dest: convolve_Inr)


lemma sqrt_25: "sqrt 25 = 5" by (rule real_sqrt_unique) simp_all
lemma sqrt_49: "sqrt 49 = 7" by (rule real_sqrt_unique) simp_all

lemma LRL2_iteration_Inr:
  "LRL2_iteration h m a prev = Inr cur \<longleftrightarrow>
     (\<exists>U. LR_update h m prev = Inr U \<and> cur = l2_correction a U)"
  by (auto simp: LRL2_iteration_def andthen_Inr)

lemma LRL2_iteration_Inl:
  "LRL2_iteration h m a prev = Inl e \<longleftrightarrow> LR_update h m prev = Inl e"
  by (cases "LR_update h m prev") (simp_all add: LRL2_iteration_def andthen_def)

lemma l2_correction_closed_form:
  assumes "i < length U" "U ! i = Fin u" "a \<noteq> 0" "0 \<le> 1 + 2 * a * u"
  shows "l2_correction (Fin a) U ! i = Fin ((- 1 + sqrt (1 + 2 * a * u)) / a)"
  using assms by (simp add: l2_correction_def)

lemma l2_correction_nan:
  assumes "i < length U" "U ! i = Fin u" "1 + 2 * a * u < 0"
  shows "l2_correction (Fin a) U ! i = NaN"
  using assms by (simp add: l2_correction_def)

lemmas eval_l2 = eval_simps fit_l2_def LRL2_def LRL2Deconvolve_def LRL2_iteration_def
  l2_correction_def no_stats_def

lemma fit_example_l2:
  "fit_l2 example_l2 example_batch =
     (example_l2\<lparr>deconvolved_y_fitted := Some [Fin (1 / 2), Fin (1 / 3)],
        reconvolved_y_fitted := Some [Fin (1 / 3), Fin (1 / 2)]\<rparr>, [], None)"
  by (simp add: example_l2_def example_batch_def eval_l2 sqrt_25 sqrt_49)

lemmas scen = spec_h_def spec_S_def spec_M_def true_M_def example_scenario_def

lemma recurrence_fixed: "step x = Inr x \<Longrightarrow> recurrence step x k = Inr x"
  by (induction k) (simp_all add: andthen_def)

lemma sqrt_9: "sqrt 9 = 3" by (rule real_sqrt_unique) simp_all

lemma convolve_error: "convolve a v = Inl e \<Longrightarrow> e = ValueError"
  by (auto simp: convolve_def Let_def split: if_splits)

lemma mean_squared_error_error: "mean_squared_error a b = Inl e \<Longrightarrow> e = ValueError"
  by (auto simp: mean_squared_error_def split: if_splits)

lemma broadcast_Inl:
  "broadcast f a b = Inl e \<longleftrightarrow>
     e = ValueError \<and> length a \<noteq> length b \<and> length a \<noteq> 1 \<and> length b \<noteq> 1"
  by (auto simp: broadcast_def)

lemma save_iteration_stats_error:
  assumes "save_iteration_stats self cur it = (evs, Some e)" "measured_y_fitted self = Some m"
  shows "e = ValueError"
  using assms
  by (auto simp: save_iteration_stats_def Let_def
           split: sum.splits option.splits
           dest: convolve_error mean_squared_error_error)

lemma iterate_last:
  assumes step: "\<And>p c it evs. update p = Inr c \<Longrightarrow> stats c it = (evs, None) \<Longrightarrow> P c"
    and run: "iterate update stats its prev cur written = (written', Inr res)"
    and cur: "\<forall>d. cur = Some d \<longrightarrow> P d"
  shows "\<forall>d. res = Some d \<longrightarrow> P d"
  using run cur
proof (induction its arbitrary: prev cur written)
  case Nil
  then show ?case by simp
next
  case (Cons it rest)
  from Cons.prems(1) obtain c evs where
    u: "update prev = Inr c" and s: "stats c it = (evs, None)"
    and r: "iterate update stats rest c (Some c) (written @ evs) = (written', Inr res)"
    by (auto split: sum.splits prod.splits option.splits)
  from step [OF u s] have "\<forall>d. Some c = Some d \<longrightarrow> P d" by simp
  from Cons.IH [OF r this] show ?case .
qed

lemma LR_update_nonempty:
  assumes "LR_update h m prev = Inr cur"
  shows "h \<noteq> [] \<and> cur \<noteq> []"
proof -
  from assms obtain I rb c where
    I: "convolve prev h = Inr I" and c: "convolve rb (rev h) = Inr c"
    and cur: "broadcast fmul prev c = Inr cur"
    by (auto simp: LR_update_def andthen_Inr)
  from I have "h \<noteq> []" "prev \<noteq> []" using convolve_Inr by blast+
  moreover from c have "c \<noteq> []"
    using convolve_Inr [OF c] length_valid_convolution [of rb "rev h"] by auto
  ultimately show ?thesis using broadcast_Inr [OF cur] by auto
qed

lemma LR_reconvolves:
  assumes "LR self m = (written, Inr d)"
  shows "\<exists>r. convolve d (impulse_response_y self) = Inr r"
proof -
  from assms have it: "iterate (LR_update (impulse_response_y self) m) (save_iteration_stats self)
      [0..<nat (iterations self)] m None [] = (written, Inr (Some d))"
    by (simp add: LR_def return_current_Inr deconvolution_guess_def Let_def)
  have "\<forall>d'. Some d = Some d' \<longrightarrow> (\<exists>r. convolve d' (impulse_response_y self) = Inr r)"
    by (rule iterate_last [OF _ it])
       (auto simp: save_iteration_stats_def split: sum.splits)
  then show ?thesis by simp
qed

lemma LR_fister_reconvolves:
  assumes "LR_fister self m = (written, Inr d)"
  shows "\<exists>r. convolve d (impulse_response_y self) = Inr r"
proof -
  let ?G = "normalized_gaussian (impulse_response_x self) (np_mean (impulse_response_x self))
              (regularizer_width self)"
  from assms have it: "iterate (LR_fister_iteration (impulse_response_y self) m ?G)
      (if logging self then save_iteration_stats self else no_stats)
      [0..<nat (iterations self)] m None [] = (written, Inr (Some d))"
    by (simp add: LR_fister_def return_current_Inr deconvolution_guess_def Let_def)
  have "\<forall>d'. Some d = Some d' \<longrightarrow> (impulse_response_y self \<noteq> [] \<and> d' \<noteq> [])"
  proof (rule iterate_last [OF _ it])
    fix p c
    assume "LR_fister_iteration (impulse_response_y self) m ?G p = Inr c"
    then obtain U where U: "LR_update (impulse_response_y self) m p = Inr U"
      and c: "c = valid_convolution U ?G"
      using LR_fister_iteration_Inr by blast
    from c have "c \<noteq> []" using length_valid_convolution [of U ?G] by auto
    with LR_update_nonempty [OF U] show "impulse_response_y self \<noteq> [] \<and> c \<noteq> []" by simp
  qed simp
  then show ?thesis by (simp add: convolve_eq)
qed

lemma fit_example_lr_fitted:
  "fit example_lr_fitted [[Fin 1, Fin 1, Fin 1]] =
     (example_lr_fitted\<lparr>measured_y_fitted := Some [Fin 1, Fin 1, Fin 1]\<rparr>, [], Some ValueError)"
  by (simp add: example_lr_fitted_def example_lr_def eval_simps)





lemma fit_example_fister_fails:
  "fit_fister example_fister [[Fin 1, Fin 1, Fin 1, Fin 1]] =
     (example_fister\<lparr>measured_y_fitted := Some [Fin 1, Fin 1, Fin 1, Fin 1]\<rparr>, [], Some ValueError)"
  by (simp add: example_fister_def eval_simps fit_fister_def LR_fister_def LRFisterDeconvolve_def
     LR_fister_iteration_def no_stats_def)

section \<open>The search and the selector\<close>

lemmas eval_fister = eval_simps fit_fister_def LR_fister_def LRFisterDeconvolve_def
     LR_fister_iteration_def normalized_gaussian_def no_stats_def

lemmas eval_grid = eval_fister grid_fit_def GridSearchCV_fit_def grid_store_def grid_scoring_def
  getitem_def negated_def cv_results_of_def scores_of_def np_std_def argbest_def first_best.simps
  fit_and_score_def score_or_nan_def clone_with_def take_rows_def kfold_split_def kfold_sizes_def
  kfold_tests.simps spec_scorers_def spec_neg_reconvolved_mse_def spec_neg_deconvolved_mse_def
  LRFisterGrid_def






lemma fit_fister_returns:
  assumes "fit_fister est X = (fitted, written, None)"
  shows "\<exists>m d r. mean_axis0 X = Inr m \<and> deconvolved_y_fitted fitted = Some d
           \<and> convolve d (impulse_response_y est) = Inr r
           \<and> impulse_response_y fitted = impulse_response_y est"
  using assms
  by (auto simp: fit_fister_def Let_def split: sum.splits prod.splits)

lemma impulse_response_y_clone [simp]:
  "impulse_response_y (clone_with p w) = impulse_response_y p"
  by (simp add: clone_with_def LRFisterDeconvolve_def)

lemma GridSearchCV_fit_Inr:
  assumes "GridSearchCV_fit p widths scoring refit X = Inr gs"
  shows "\<exists>splits means written.
           widths \<noteq> [] \<and> kfold_split 5 (length X) = Inr splits
         \<and> cv_results gs = cv_results_of scoring
              (map (\<lambda>w. map (fit_and_score scoring (clone_with p w) X) splits) widths)
         \<and> map_of (cv_results gs) (''mean_test_'' @ refit) = Some means
         \<and> best_index gs = argbest means
         \<and> fit_fister (clone_with p (widths ! argbest means)) X = (best_estimator gs, written, None)"
  using assms
  by (auto simp: GridSearchCV_fit_def Let_def split: if_splits sum.splits option.splits prod.splits)




lemma cv_results_one:
  "cv_results_of [(''reconvolved'', s2)] out =
     [(''mean_test_reconvolved'', map np_mean (scores_of out True 0)),
      (''std_test_reconvolved'', map np_std (scores_of out True 0)),
      (''mean_train_reconvolved'', map np_mean (scores_of out False 0)),
      (''std_train_reconvolved'', map np_std (scores_of out False 0))]"
  by (simp add: cv_results_of_def upt_rec Let_def)

lemma grid_store_missing:
  "grid_store s (cv_results_of [(''reconvolved'', s2)] out) =
     (s\<lparr>gridsearch_cv_results_fitted := Some (cv_results_of [(''reconvolved'', s2)] out)\<rparr>,
      Some KeyError)"
  by (simp add: grid_store_def getitem_def cv_results_one)

lemma grid_fit_search_returned:
  assumes gs: "GridSearchCV_fit
      (LRFisterDeconvolve (impulse_response_x self) (impulse_response_y self) (convolved_x self)
         (Fin (5 / 100)) (iterations self) (ground_truth_y self) False)
      (regularizer_widths self) (grid_scoring sc (ground_truth_y self)) ''reconvolved'' X = Inr gs"
  shows "\<exists>m d r. mean_axis0 X = Inr m \<and> deconvolved_y_fitted (best_estimator gs) = Some d
           \<and> convolve d (impulse_response_y self) = Inr r
           \<and> grid_fit sc self X =
               grid_store (self\<lparr>measured_y_fitted := Some m, deconvolved_y_fitted := Some d,
                               reconvolved_y_fitted := Some r\<rparr>) (cv_results gs)"
proof -
  from GridSearchCV_fit_Inr [OF gs] obtain w written where
    "fit_fister (clone_with (LRFisterDeconvolve (impulse_response_x self) (impulse_response_y self)
       (convolved_x self) (Fin (5 / 100)) (iterations self) (ground_truth_y self) False) w) X
     = (best_estimator gs, written, None)"
    by blast
  from fit_fister_returns [OF this] obtain m d r where
    "mean_axis0 X = Inr m" "deconvolved_y_fitted (best_estimator gs) = Some d"
    "convolve d (impulse_response_y self) = Inr r"
    by (auto simp: LRFisterDeconvolve_def)
  with gs show ?thesis by (simp add: grid_fit_def Let_def)
qed

lemma search_example_blind:
  "\<exists>gs. GridSearchCV_fit
      (LRFisterDeconvolve (impulse_response_x example_grid_blind)
         (impulse_response_y example_grid_blind) (convolved_x example_grid_blind)
         (Fin (5 / 100)) (iterations example_grid_blind) None False)
      (regularizer_widths example_grid_blind)
      [(''reconvolved'', neg_reconvolved_mse spec_scorers)] ''reconvolved'' example_rows = Inr gs
     \<and> best_index gs = 0"
  by (simp add: eval_grid example_rows_def example_grid_blind_def)



section \<open>Fits that return\<close>



lemma l2_fit_result:
  assumes fitted: "fit_l2 self X = (self', written, None)"
    and h: "h = impulse_response_y self"
  shows "(\<exists>m d. mean_axis0 X = Inr m \<and> 1 \<le> iterations self
            \<and> deconvolved_y_fitted self' = Some d
            \<and> recurrence (LRL2_iteration h m (alpha self)) m (nat (iterations self)) = Inr d)
       \<and> (\<forall>m prev cur. LRL2_iteration h m (alpha self) prev = Inr cur \<longrightarrow>
             (\<exists>U. LR_update h m prev = Inr U \<and> length cur = length U \<and>
                (\<forall>i a u. i < length U \<and> alpha self = Fin a \<and> a \<noteq> 0 \<and> U ! i = Fin u
                          \<and> 0 \<le> 1 + 2 * a * u \<longrightarrow>
                    cur ! i = Fin ((- 1 + sqrt (1 + 2 * a * u)) / a))))"
proof -
  from fitted obtain m d where m: "mean_axis0 X = Inr m"
    and run: "LRL2 self m = (written, Inr d)"
    and d: "deconvolved_y_fitted self' = Some d"
    by (auto simp: fit_l2_def Let_def split: sum.splits prod.splits)
  from run have "return_current
      (iterate (LRL2_iteration h m (alpha self)) no_stats [0..<nat (iterations self)] m None [])
       = (written, Inr d)"
    by (simp add: LRL2_def h deconvolution_guess_def Let_def)
  from iterate_runs [OF this] m d have 1: "\<exists>m d. mean_axis0 X = Inr m \<and> 1 \<le> iterations self
            \<and> deconvolved_y_fitted self' = Some d
            \<and> recurrence (LRL2_iteration h m (alpha self)) m (nat (iterations self)) = Inr d"
    by blast
  have 2: "\<exists>U. LR_update h m prev = Inr U \<and> length cur = length U \<and>
                (\<forall>i a u. i < length U \<and> alpha self = Fin a \<and> a \<noteq> 0 \<and> U ! i = Fin u
                          \<and> 0 \<le> 1 + 2 * a * u \<longrightarrow>
                    cur ! i = Fin ((- 1 + sqrt (1 + 2 * a * u)) / a))"
    if "LRL2_iteration h m (alpha self) prev = Inr cur" for m prev cur
  proof -
    from that obtain U where U: "LR_update h m prev = Inr U" "cur = l2_correction (alpha self) U"
      by (auto simp: LRL2_iteration_Inr)
    have "length cur = length U" by (simp add: U(2) l2_correction_def)
    with U l2_correction_closed_form show ?thesis by auto
  qed
  from 1 2 show ?thesis by blast
qed

lemma positive_Fin: "positive v \<longleftrightarrow> (\<exists>a. v = Fin a \<and> 0 < a)"
  by (cases v) simp_all

lemma positive_fmul: "positive a \<Longrightarrow> positive b \<Longrightarrow> positive (fmul a b)"
  by (auto simp: positive_Fin)

lemma positive_fdiv: "positive a \<Longrightarrow> positive b \<Longrightarrow> positive (fdiv a b)"
  by (auto simp: positive_Fin)


lemma np_sum_positive:
  assumes "list_all positive xs"
  shows "\<exists>s. np_sum xs = Fin s \<and> 0 \<le> s \<and> (xs \<noteq> [] \<longrightarrow> 0 < s)"
  using assms
proof (induction xs)
  case Nil
  then show ?case by (simp add: np_sum_def)
next
  case (Cons x xs)
  then obtain s a where "np_sum xs = Fin s" "0 \<le> s" "x = Fin a" "0 < a"
    by (auto simp: positive_Fin)
  then show ?case by (simp add: np_sum_def)
qed

lemma valid_convolution_positive:
  assumes "a \<noteq> []" "v \<noteq> []" "list_all positive a" "list_all positive v"
  shows "list_all positive (valid_convolution a v)"
proof -
  have *: "list_all positive
      (map (\<lambda>k. np_sum (map (\<lambda>i. fmul (long ! (k + i)) (short ! (length short - 1 - i)))
                             [0..<length short]))
           [0..<length long - length short + 1])"
    if "length short \<le> length long" "short \<noteq> []" "list_all positive long"
       "list_all positive short" for long short :: array
  proof -
    have "positive (np_sum (map (\<lambda>i. fmul (long ! (k + i)) (short ! (length short - 1 - i)))
                             [0..<length short]))"
      if k: "k < length long - length short + 1" for k
    proof -
      have "list_all positive (map (\<lambda>i. fmul (long ! (k + i)) (short ! (length short - 1 - i)))
                             [0..<length short])"
        using k \<open>length short \<le> length long\<close> \<open>list_all positive long\<close>
          \<open>list_all positive short\<close>
        by (auto simp: list_all_iff intro!: positive_fmul)
      moreover have "map (\<lambda>i. fmul (long ! (k + i)) (short ! (length short - 1 - i)))
                             [0..<length short] \<noteq> []"
        using \<open>short \<noteq> []\<close> by simp
      ultimately show ?thesis using np_sum_positive by (fastforce simp: positive_Fin)
    qed
    then show ?thesis by (simp add: list_all_iff)
  qed
  show ?thesis
  proof (cases "length v \<le> length a")
    case True
    with * [of v a] assms show ?thesis by (simp add: valid_convolution_def Let_def)
  next
    case False
    with * [of a v] assms show ?thesis by (simp add: valid_convolution_def Let_def)
  qed
qed

lemma map2_positive:
  assumes "\<And>x y. positive x \<Longrightarrow> positive y \<Longrightarrow> positive (f x y)"
    "list_all positive a" "list_all positive b"
  shows "list_all positive (map2 f a b)"
proof -
  have "positive (f x y)" if "(x, y) \<in> set (zip a b)" for x y
    using that assms set_zip_leftD [OF that] set_zip_rightD [OF that]
    by (simp add: list_all_iff)
  then show ?thesis by (auto simp: list_all_iff)
qed

lemma LR_update_positive:
  assumes h: "list_all positive h" "length h = 2 * length m - 1"
    and m: "list_all positive m" "m \<noteq> []"
    and p: "list_all positive prev" "length prev = length m"
  shows "\<exists>cur. LR_update h m prev = Inr cur \<and> list_all positive cur \<and> length cur = length m"
proof -
  let ?a = "length m"
  from m(2) have a1: "1 \<le> ?a" by (cases m) auto
  with h(2) have hne: "h \<noteq> []" by auto
  from p(2) m(2) have pne: "prev \<noteq> []" by auto
  let ?I = "valid_convolution prev h"
  have I: "convolve prev h = Inr ?I" using pne hne by (rule convolve_eq)
  have len: "max ?a (length h) - min ?a (length h) + 1 = ?a" using a1 h(2) by arith
  have lI: "length ?I = ?a" using len by (simp only: length_valid_convolution p(2))
  have pI: "list_all positive ?I" using pne hne p(1) h(1) by (rule valid_convolution_positive)
  let ?rb = "map2 fdiv m ?I"
  have rb: "broadcast fdiv m ?I = Inr ?rb" using lI by (simp add: broadcast_def)
  have lrb: "length ?rb = ?a" using lI by simp
  have prb: "list_all positive ?rb" using positive_fdiv m(1) pI by (rule map2_positive)
  from lrb a1 have rbne: "?rb \<noteq> []" by (metis length_0_conv not_one_le_zero)
  let ?c = "valid_convolution ?rb (rev h)"
  have c: "convolve ?rb (rev h) = Inr ?c" using rbne hne by (simp add: convolve_eq)
  have lc: "length ?c = ?a"
    using len by (simp only: length_valid_convolution lrb length_rev)
  have pc: "list_all positive ?c"
    using rbne hne prb h(1) by (intro valid_convolution_positive) (simp_all add: list_all_iff)
  let ?cur = "map2 fmul prev ?c"
  have cur: "broadcast fmul prev ?c = Inr ?cur" using lc p(2) by (simp add: broadcast_def)
  have "list_all positive ?cur" using positive_fmul p(1) pc by (rule map2_positive)
  moreover have "length ?cur = ?a" using lc p(2) by simp
  moreover have "LR_update h m prev = Inr ?cur"
    by (simp add: LR_update_def andthen_def I rb c cur)
  ultimately show ?thesis by blast
qed

lemma mean_axis0_positive:
  assumes "positive_batch X"
  shows "\<exists>m. mean_axis0 X = Inr m \<and> list_all positive m \<and> length m = ncols X \<and> m \<noteq> []"
proof -
  from assms have ne: "X \<noteq> []" and rect: "rectangular X" and nc: "0 < ncols X"
    and pos: "list_all (list_all positive) X"
    by (simp_all add: positive_batch_def)
  let ?m = "map (\<lambda>j. np_mean (map (\<lambda>r. r ! j) X)) [0..<ncols X]"
  have "positive (np_mean (map (\<lambda>r. r ! j) X))" if j: "j < ncols X" for j
  proof -
    have "list_all positive (map (\<lambda>r. r ! j) X)"
      using rect pos j by (auto simp: list_all_iff rectangular_def)
    with np_sum_positive [of "map (\<lambda>r. r ! j) X"] ne
    obtain s where "np_sum (map (\<lambda>r. r ! j) X) = Fin s" "0 < s" by auto
    with ne show ?thesis by (simp add: np_mean_def)
  qed
  then have "list_all positive ?m" by (simp add: list_all_iff)
  moreover have "mean_axis0 X = Inr ?m" using rect by (simp add: mean_axis0_def)
  moreover have "?m \<noteq> []" using nc by simp
  ultimately show ?thesis by simp
qed


lemma iterate_positive:
  assumes upd: "\<And>prev. list_all positive prev \<Longrightarrow> length prev = n \<Longrightarrow>
              \<exists>cur. update prev = Inr cur \<and> list_all positive cur \<and> length cur = n"
    and st: "\<And>cur it. list_all positive cur \<Longrightarrow> length cur = n \<Longrightarrow>
              \<exists>evs. stats cur it = (evs, None)"
    and p: "list_all positive prev" "length prev = n"
  shows "\<exists>written' res. iterate update stats its prev cur written = (written', Inr res)
           \<and> (its \<noteq> [] \<longrightarrow> res \<noteq> None)"
  using p
proof (induction its arbitrary: prev cur written)
  case Nil
  then show ?case by simp
next
  case (Cons it rest)
  from upd [OF Cons.prems] obtain c where c: "update prev = Inr c" "list_all positive c"
    "length c = n" by blast
  from st [OF c(2,3)] obtain evs where evs: "stats c it = (evs, None)" by blast
  from Cons.IH [OF c(2,3), where cur = "Some c" and written = "written @ evs"]
  obtain w' res where
    r: "iterate update stats rest c (Some c) (written @ evs) = (w', Inr res)"
      "rest \<noteq> [] \<longrightarrow> res \<noteq> None"
    by blast
  have "res \<noteq> None"
  proof (cases rest)
    case Nil
    with r(1) show ?thesis by auto
  next
    case (Cons a list)
    with r(2) show ?thesis by simp
  qed
  with r(1) c(1) evs show ?case by simp
qed

lemma run_positive:
  assumes upd: "\<And>prev. list_all positive prev \<Longrightarrow> length prev = n \<Longrightarrow>
              \<exists>cur. update prev = Inr cur \<and> list_all positive cur \<and> length cur = n"
    and st: "\<And>cur it. list_all positive cur \<Longrightarrow> length cur = n \<Longrightarrow>
              \<exists>evs. stats cur it = (evs, None)"
    and p: "list_all positive m" "length m = n" and N: "1 \<le> N"
  shows "\<exists>written d. return_current (iterate update stats [0..<nat N] m None []) = (written, Inr d)"
proof -
  from N have "[0..<nat N] \<noteq> []" by simp
  moreover have "\<exists>written' res. iterate update stats [0..<nat N] m None [] = (written', Inr res)
           \<and> ([0..<nat N] \<noteq> [] \<longrightarrow> res \<noteq> None)"
    by (rule iterate_positive [where n = n]) (use upd st p in blast)+
  ultimately obtain w res where "iterate update stats [0..<nat N] m None [] = (w, Inr res)" "res \<noteq> None"
    by blast
  then show ?thesis by (auto simp: return_current_def)
qed




lemma l2_correction_positive:
  assumes "0 < a" "list_all positive U"
  shows "list_all positive (l2_correction (Fin a) U)"
proof -
  have "positive (fdiv (fadd (Fin (- 1)) (fsqrt (fadd (Fin 1) (fmul (fmul (Fin 2) (Fin a)) u))))
                  (Fin a))" if "positive u" for u
  proof -
    from that obtain r where u: "u = Fin r" "0 < r" by (auto simp: positive_Fin)
    with assms(1) have "0 < 2 * a * r" by simp
    then have "1 < sqrt (1 + 2 * a * r)" by simp
    with assms(1) u show ?thesis by simp
  qed
  with assms(2) show ?thesis by (simp add: l2_correction_def list_all_iff)
qed


lemma fit_l2_returns_positive:
  assumes X: "positive_batch X"
    and h: "list_all positive (impulse_response_y self)"
       "length (impulse_response_y self) = 2 * ncols X - 1"
    and a: "alpha self = Fin a" "0 < a"
    and N: "1 \<le> iterations self"
  shows "\<exists>self' written. fit_l2 self X = (self', written, None)"
proof -
  from mean_axis0_positive [OF X] obtain m where m: "mean_axis0 X = Inr m" "list_all positive m"
    "length m = ncols X" "m \<noteq> []" by blast
  let ?h = "impulse_response_y self"
  have "\<exists>written d. return_current (iterate (LRL2_iteration ?h m (alpha self)) no_stats
           [0..<nat (iterations self)] m None []) = (written, Inr d)"
  proof (rule run_positive [OF _ _ m(2) refl N])
    fix prev :: array
    assume "list_all positive prev" "length prev = length m"
    with LR_update_positive [of ?h m prev] h m obtain U where
      U: "LR_update ?h m prev = Inr U" "list_all positive U" "length U = length m" by auto
    from l2_correction_positive [OF a(2) U(2)] U
    show "\<exists>cur. LRL2_iteration ?h m (alpha self) prev = Inr cur \<and> list_all positive cur
            \<and> length cur = length m"
      by (simp add: LRL2_iteration_def andthen_def a(1) l2_correction_def)
  next
    fix cur :: array and it
    show "\<exists>evs. no_stats cur it = (evs, None)" by (simp add: no_stats_def)
  qed
  then obtain written d where run: "LRL2 self m = (written, Inr d)"
    by (auto simp: LRL2_def deconvolution_guess_def Let_def)
  have "\<forall>d'. Some d = Some d' \<longrightarrow> (?h \<noteq> [] \<and> d' \<noteq> [])"
  proof (rule iterate_last [where update = "LRL2_iteration ?h m (alpha self)"
        and stats = no_stats and its = "[0..<nat (iterations self)]" and prev = m
        and cur = None and written = "[]" and written' = written])
    fix p c
    assume "LRL2_iteration ?h m (alpha self) p = Inr c"
    then obtain U where "LR_update ?h m p = Inr U" "c = l2_correction (alpha self) U"
      by (auto simp: LRL2_iteration_Inr)
    with LR_update_nonempty [of ?h m p U] show "?h \<noteq> [] \<and> c \<noteq> []"
      by (simp add: l2_correction_def)
  next
    from run show "iterate (LRL2_iteration ?h m (alpha self)) no_stats
        [0..<nat (iterations self)] m None [] = (written, Inr (Some d))"
      by (simp add: LRL2_def return_current_Inr deconvolution_guess_def Let_def)
  qed simp
  then obtain r where "convolve d ?h = Inr r" by (auto simp: convolve_eq)
  with m(1) run show ?thesis by (simp add: fit_l2_def Let_def)
qed

section \<open>The claims\<close>





text \<open>
  C3. Whenever \<^verbatim>\<open>LRL2Deconvolve.fit\<close> returns, \<open>N \<ge> 1\<close> and the stored deconvolved signal
  is the result of \<open>N\<close> steps from \<open>O_0 = m\<close>; each step is the plain update followed by the
  elementwise correction, which for \<open>alpha \<noteq> 0\<close> replaces a finite element \<open>u\<close> with
  \<open>1 + 2 alpha u \<ge> 0\<close> by \<open>(-1 + sqrt (1 + 2 alpha u)) / alpha\<close>. And \<^verbatim>\<open>fit\<close> does return for
  \<open>N \<ge> 1\<close> and \<open>alpha > 0\<close> on a positive batch with a positive impulse response of the
  matching length.
\<close>

theorem l2_fit_applies_closed_form:
  "(fit_l2 self X = (self', written, None) \<and> h = impulse_response_y self \<longrightarrow>
        (\<exists>m d. mean_axis0 X = Inr m \<and> 1 \<le> iterations self
            \<and> deconvolved_y_fitted self' = Some d
            \<and> recurrence (LRL2_iteration h m (alpha self)) m (nat (iterations self)) = Inr d)
       \<and> (\<forall>m prev cur. LRL2_iteration h m (alpha self) prev = Inr cur \<longrightarrow>
             (\<exists>U. LR_update h m prev = Inr U \<and> length cur = length U \<and>
                (\<forall>i a u. i < length U \<and> alpha self = Fin a \<and> a \<noteq> 0 \<and> U ! i = Fin u
                          \<and> 0 \<le> 1 + 2 * a * u \<longrightarrow>
                    cur ! i = Fin ((- 1 + sqrt (1 + 2 * a * u)) / a)))))
   \<and> (positive_batch X \<and> list_all positive (impulse_response_y self)
        \<and> length (impulse_response_y self) = 2 * ncols X - 1
        \<and> alpha self = Fin al \<and> 0 < al \<and> 1 \<le> iterations self \<longrightarrow>
      (\<exists>fitted scalars. fit_l2 self X = (fitted, scalars, None)))"
  using l2_fit_result [of self X self' written h] fit_l2_returns_positive [of X self al]
  by blast

theorem l2_fit_applies_closed_form_witness:
  "fit_l2 example_l2 example_batch =
     (example_l2\<lparr>deconvolved_y_fitted := Some [Fin (1 / 2), Fin (1 / 3)],
        reconvolved_y_fitted := Some [Fin (1 / 3), Fin (1 / 2)]\<rparr>, [], None)
   \<and> (\<exists>m d. mean_axis0 example_batch = Inr m \<and> 1 \<le> iterations example_l2
         \<and> recurrence (LRL2_iteration (impulse_response_y example_l2) m (alpha example_l2))
              m (nat (iterations example_l2)) = Inr d)
   \<and> LRL2_iteration (impulse_response_y example_l2) [Fin 1, Fin 2] (alpha example_l2)
        [Fin 1, Fin 2] = Inr [Fin (1 / 2), Fin (1 / 3)]
   \<and> LR_update (impulse_response_y example_l2) [Fin 1, Fin 2] [Fin 1, Fin 2] = Inr [Fin 2, Fin 1]
   \<and> alpha example_l2 = Fin 12 \<and> (0::real) \<le> 1 + 2 * 12 * 2
   \<and> [Fin (1 / 2), Fin (1 / 3)] ! 0 = Fin ((- 1 + sqrt (1 + 2 * 12 * 2)) / 12)
   \<and> positive_batch example_batch \<and> list_all positive (impulse_response_y example_l2_positive)
   \<and> length (impulse_response_y example_l2_positive) = 2 * ncols example_batch - 1
   \<and> alpha example_l2_positive = Fin 12 \<and> 1 \<le> iterations example_l2_positive
   \<and> (\<exists>fitted scalars. fit_l2 example_l2_positive example_batch = (fitted, scalars, None))"
proof -
  note t = l2_fit_applies_closed_form [where self = example_l2 and X = example_batch
      and self' = "example_l2\<lparr>deconvolved_y_fitted := Some [Fin (1 / 2), Fin (1 / 3)],
        reconvolved_y_fitted := Some [Fin (1 / 3), Fin (1 / 2)]\<rparr>" and written = "[]"
      and h = "impulse_response_y example_l2" and al = 12]
  note u = l2_fit_applies_closed_form [where self = example_l2_positive and X = example_batch
      and self' = example_l2_positive and written = "[]" and h = "[]" and al = 12]
  have it: "LRL2_iteration (impulse_response_y example_l2) [Fin 1, Fin 2] (alpha example_l2)
        [Fin 1, Fin 2] = Inr [Fin (1 / 2), Fin (1 / 3)]"
    and up: "LR_update (impulse_response_y example_l2) [Fin 1, Fin 2] [Fin 1, Fin 2] =
        Inr [Fin 2, Fin 1]"
    and al: "alpha example_l2 = Fin 12"
    by (simp_all add: example_l2_def eval_l2 sqrt_25 sqrt_49)
  have p: "positive_batch example_batch \<and> list_all positive (impulse_response_y example_l2_positive)
      \<and> length (impulse_response_y example_l2_positive) = 2 * ncols example_batch - 1
      \<and> alpha example_l2_positive = Fin 12 \<and> (0::real) < 12
      \<and> 1 \<le> iterations example_l2_positive"
    by (simp add: positive_batch_def example_batch_def rectangular_def ncols_def
          example_l2_positive_def LRL2Deconvolve_def)
  have "[Fin (1 / 2), Fin (1 / 3)] ! 0 = Fin ((- 1 + sqrt (1 + 2 * 12 * 2)) / 12)"
    by (simp add: sqrt_49)
  moreover have "(0::real) \<le> 1 + 2 * 12 * 2" by simp
  moreover from t fit_example_l2
  have "\<exists>m d. mean_axis0 example_batch = Inr m \<and> 1 \<le> iterations example_l2
         \<and> recurrence (LRL2_iteration (impulse_response_y example_l2) m (alpha example_l2))
              m (nat (iterations example_l2)) = Inr d"
    by blast
  moreover from u p
  have "\<exists>fitted scalars. fit_l2 example_l2_positive example_batch = (fitted, scalars, None)"
    by blast
  ultimately show ?thesis using it up al p fit_example_l2 by blast
qed

text \<open>
  C4, as the code has it. The correction never raises: an iteration of \<^verbatim>\<open>_LRL2\<close> fails
  only where the plain update fails. A finite element \<open>u\<close> with \<open>1 + 2 alpha u < 0\<close> is
  replaced by \<open>nan\<close>, and the loop goes on with it.
\<close>

theorem l2_negative_radicand_gives_nan:
  "(\<forall>e. LRL2_iteration h m (Fin a) prev = Inl e \<longleftrightarrow> LR_update h m prev = Inl e)
   \<and> (\<forall>cur. LRL2_iteration h m (Fin a) prev = Inr cur \<longrightarrow>
        (\<exists>U. LR_update h m prev = Inr U \<and> length cur = length U \<and>
           (\<forall>i u. i < length U \<and> U ! i = Fin u \<and> 1 + 2 * a * u < 0 \<longrightarrow> cur ! i = NaN)))"
proof -
  have "\<exists>U. LR_update h m prev = Inr U \<and> length cur = length U \<and>
           (\<forall>i u. i < length U \<and> U ! i = Fin u \<and> 1 + 2 * a * u < 0 \<longrightarrow> cur ! i = NaN)"
    if "LRL2_iteration h m (Fin a) prev = Inr cur" for cur
  proof -
    from that obtain U where U: "LR_update h m prev = Inr U" "cur = l2_correction (Fin a) U"
      by (auto simp: LRL2_iteration_Inr)
    have "length cur = length U" by (simp add: U(2) l2_correction_def)
    with U l2_correction_nan show ?thesis by auto
  qed
  then show ?thesis by (simp add: LRL2_iteration_Inl)
qed

theorem l2_negative_radicand_gives_nan_witness:
  "LRL2_iteration [Fin 1] [Fin 1] (Fin (- 1)) [Fin 1] = Inr [NaN]
   \<and> LR_update [Fin 1] [Fin 1] [Fin 1] = Inr [Fin 1]
   \<and> 1 + 2 * (- 1) * 1 < (0::real) \<and> [NaN] ! 0 = NaN"
  using l2_negative_radicand_gives_nan [of "[Fin 1]" "[Fin 1]" "- 1" "[Fin 1]"]
  by (simp add: eval_l2)

text \<open>
  C4, as stated, fails: with \<open>alpha = -1\<close> and the measured signal \<open>[1]\<close> the updated
  estimate is \<open>[1]\<close>, the radicand is \<open>-1\<close>, and \<^verbatim>\<open>fit\<close> returns with \<open>nan\<close> stored as
  deconvolved and reconvolved signal.
\<close>

theorem l2_negative_radicand_counterexample:
  "LR_update [Fin 1] [Fin 1] [Fin 1] = Inr [Fin 1] \<and> 1 + 2 * (- 1) * 1 < (0::real)
   \<and> fit_l2 example_l2_negative [[Fin 1]] =
     (example_l2_negative\<lparr>deconvolved_y_fitted := Some [NaN],
        reconvolved_y_fitted := Some [NaN]\<rparr>, [], None)"
  by (simp add: example_l2_negative_def eval_l2)

text \<open>
  C6, as the code has it. A call of \<^verbatim>\<open>fit\<close> that raises does not undo what it has
  assigned and does not clear what an earlier call stored: the deconvolved and the
  reconvolved signal are those from before the call, \<^verbatim>\<open>predict\<close> and \<^verbatim>\<open>score\<close> answer as
  they did before the call, and the measured signal is the new mean once it was computed.
\<close>

theorem failed_fit_keeps_earlier_results:
  "(fit self X = (self', written, Some e) \<longrightarrow>
      deconvolved_y_fitted self' = deconvolved_y_fitted self
      \<and> reconvolved_y_fitted self' = reconvolved_y_fitted self
      \<and> predict self' Y = predict self Y \<and> score self' Y = score self Y
      \<and> (measured_y_fitted self' = measured_y_fitted self
           \<or> (\<exists>m. mean_axis0 X = Inr m \<and> measured_y_fitted self' = Some m)))
   \<and> (fit_fister fself X = (fself', written, Some e) \<longrightarrow>
      deconvolved_y_fitted fself' = deconvolved_y_fitted fself
      \<and> reconvolved_y_fitted fself' = reconvolved_y_fitted fself
      \<and> predict fself' Y = predict fself Y \<and> score fself' Y = score fself Y
      \<and> (measured_y_fitted fself' = measured_y_fitted fself
           \<or> (\<exists>m. mean_axis0 X = Inr m \<and> measured_y_fitted fself' = Some m)))"
proof -
  have a: "self' = self \<or> (\<exists>m. mean_axis0 X = Inr m \<and> self' = self\<lparr>measured_y_fitted := Some m\<rparr>)"
    if "fit self X = (self', written, Some e)"
    using that LR_reconvolves
    by (fastforce simp: fit_def Let_def split: sum.splits prod.splits)
  have b: "fself' = fself \<or> (\<exists>m. mean_axis0 X = Inr m \<and> fself' = fself\<lparr>measured_y_fitted := Some m\<rparr>)"
    if "fit_fister fself X = (fself', written, Some e)"
    using that LR_fister_reconvolves
    by (fastforce simp: fit_fister_def Let_def split: sum.splits prod.splits)
  from a b show ?thesis by (auto simp: predict_def score_def)
qed

theorem failed_fit_keeps_earlier_results_witness:
  "fit example_lr_fitted [[Fin 1, Fin 1, Fin 1]] =
     (example_lr_fitted\<lparr>measured_y_fitted := Some [Fin 1, Fin 1, Fin 1]\<rparr>, [], Some ValueError)
   \<and> predict (example_lr_fitted\<lparr>measured_y_fitted := Some [Fin 1, Fin 1, Fin 1]\<rparr>) example_batch
       = predict example_lr_fitted example_batch
   \<and> score (example_lr_fitted\<lparr>measured_y_fitted := Some [Fin 1, Fin 1, Fin 1]\<rparr>) example_batch
       = score example_lr_fitted example_batch
   \<and> fit_fister example_fister [[Fin 1, Fin 1, Fin 1, Fin 1]] =
     (example_fister\<lparr>measured_y_fitted := Some [Fin 1, Fin 1, Fin 1, Fin 1]\<rparr>, [], Some ValueError)
   \<and> predict (example_fister\<lparr>measured_y_fitted := Some [Fin 1, Fin 1, Fin 1, Fin 1]\<rparr>) example_batch
       = predict example_fister example_batch"
  using failed_fit_keeps_earlier_results [where self = example_lr_fitted
      and X = "[[Fin 1, Fin 1, Fin 1]]"
      and self' = "example_lr_fitted\<lparr>measured_y_fitted := Some [Fin 1, Fin 1, Fin 1]\<rparr>"
      and written = "[]" and e = ValueError and Y = example_batch and fself = example_fister
      and fself' = example_fister]
    failed_fit_keeps_earlier_results [where self = example_lr_fitted
      and X = "[[Fin 1, Fin 1, Fin 1, Fin 1]]" and self' = example_lr_fitted
      and written = "[]" and e = ValueError and Y = example_batch and fself = example_fister
      and fself' = "example_fister\<lparr>measured_y_fitted := Some [Fin 1, Fin 1, Fin 1, Fin 1]\<rparr>"]
    fit_example_lr_fitted fit_example_fister_fails
  by simp

text \<open>
  C6, as stated, fails: after a successful \<^verbatim>\<open>fit\<close> a second call on a batch of three
  columns raises \<^verbatim>\<open>ValueError\<close>; the instance then holds the mean of the failed call
  next to the deconvolved and reconvolved signal of the first call, and \<^verbatim>\<open>predict\<close> and
  \<^verbatim>\<open>score\<close> return results computed from them.
\<close>

theorem failed_fit_counterexample:
  "fit example_lr example_batch =
     (example_lr_fitted, [(''reconstruction_mse'', Fin 0, 0), (''reconstruction_mse'', Fin 0, 1)], None)
   \<and> fit example_lr_fitted [[Fin 1, Fin 1, Fin 1]] =
     (example_lr_fitted\<lparr>measured_y_fitted := Some [Fin 1, Fin 1, Fin 1]\<rparr>, [], Some ValueError)
   \<and> predict (example_lr_fitted\<lparr>measured_y_fitted := Some [Fin 1, Fin 1, Fin 1]\<rparr>) example_batch
       = Inr [Fin 2, Fin 1]
   \<and> score (example_lr_fitted\<lparr>measured_y_fitted := Some [Fin 1, Fin 1, Fin 1]\<rparr>) example_batch
       = Inr (Fin 0)"
  using fit_example_lr fit_example_lr_fitted
  by (simp add: example_lr_fitted_def predict_def score_def eval_simps example_batch_def)

text \<open>
  C7, as the code has it. A valid-mode convolution of non-empty arrays of lengths
  \<open>m \<ge> n\<close> has \<open>m - n + 1\<close> entries. The ratio (and any elementwise operation) raises
  exactly when the two lengths differ and neither is 1: an array of length 1 is
  broadcast. In the loop of \<^verbatim>\<open>_LR\<close>, which saves statistics, an iteration whose ratio
  pairs unequal lengths still ends in \<^verbatim>\<open>ValueError\<close>: if not in the update then in the
  mean squared error of the statistics.
\<close>

theorem shape_rule_broadcasts:
  "(a \<noteq> [] \<and> v \<noteq> [] \<and> length v \<le> length a \<longrightarrow>
      (\<exists>r. convolve a v = Inr r \<and> length r = length a - length v + 1))
   \<and> (\<forall>e. broadcast f m I = Inl e \<longleftrightarrow>
          e = ValueError \<and> length m \<noteq> length I \<and> length m \<noteq> 1 \<and> length I \<noteq> 1)
   \<and> (measured_y_fitted self = Some m \<and> length prev = length m
        \<and> convolve prev (impulse_response_y self) = Inr I \<and> length I \<noteq> length m
        \<and> LR_update (impulse_response_y self) m prev = Inr cur \<longrightarrow>
          (\<exists>evs. save_iteration_stats self cur it = (evs, Some ValueError)))"
proof -
  have 1: "\<exists>r. convolve a v = Inr r \<and> length r = length a - length v + 1"
    if "a \<noteq> []" "v \<noteq> []" "length v \<le> length a"
    using that by (simp add: convolve_eq length_valid_convolution max_def min_def)
  have 3: "\<exists>evs. save_iteration_stats self cur it = (evs, Some ValueError)"
    if my: "measured_y_fitted self = Some m" and len: "length prev = length m"
      and I: "convolve prev (impulse_response_y self) = Inr I" and ne: "length I \<noteq> length m"
      and upd: "LR_update (impulse_response_y self) m prev = Inr cur"
  proof (cases "save_iteration_stats self cur it")
    case (Pair evs res)
    show ?thesis
    proof (cases res)
      case None
      with Pair save_iteration_stats_ok(1) [of self cur it evs] my obtain r where
        "convolve cur (impulse_response_y self) = Inr r" "length r = length m" by auto
      from LR_update_ratio_lengths [OF upd len this] I ne show ?thesis
        by (auto dest: convolve_Inr)
    next
      case (Some e)
      with Pair save_iteration_stats_error [OF _ my] show ?thesis by auto
    qed
  qed
  from 1 3 show ?thesis by (simp add: broadcast_Inl)
qed

theorem shape_rule_broadcasts_witness:
  "spec_S \<noteq> [] \<and> spec_h \<noteq> [] \<and> length spec_h \<le> length spec_S
   \<and> (\<exists>r. convolve spec_S spec_h = Inr r \<and> length r = length spec_S - length spec_h + 1)
   \<and> broadcast fdiv [Fin 1, Fin 2, Fin 3] [Fin 1, Fin 2] = Inl ValueError
   \<and> measured_y_fitted ((example_scenario [])\<lparr>measured_y_fitted := Some spec_M\<rparr>) = Some spec_M
   \<and> convolve spec_M (impulse_response_y ((example_scenario [])\<lparr>measured_y_fitted := Some spec_M\<rparr>))
        = Inr [Fin (1 / 2)]
   \<and> length [Fin (1 / 2) :: npfloat] \<noteq> length spec_M
   \<and> LR_update (impulse_response_y ((example_scenario [])\<lparr>measured_y_fitted := Some spec_M\<rparr>))
        spec_M spec_M = Inr spec_M
   \<and> (\<exists>evs. save_iteration_stats ((example_scenario [])\<lparr>measured_y_fitted := Some spec_M\<rparr>)
        spec_M 0 = (evs, Some ValueError))"
proof -
  let ?self = "(example_scenario [])\<lparr>measured_y_fitted := Some spec_M\<rparr>"
  note t = shape_rule_broadcasts [where a = spec_S and v = spec_h and f = fdiv
      and m = spec_M and I = "[Fin (1 / 2)]" and self = ?self and prev = spec_M and cur = spec_M
      and it = 0]
  have 1: "spec_S \<noteq> [] \<and> spec_h \<noteq> [] \<and> length spec_h \<le> length spec_S"
    by (simp add: scen)
  have 2: "measured_y_fitted ?self = Some spec_M \<and> length spec_M = length spec_M
        \<and> convolve spec_M (impulse_response_y ?self) = Inr [Fin (1 / 2)]
        \<and> length [Fin (1 / 2) :: npfloat] \<noteq> length spec_M
        \<and> LR_update (impulse_response_y ?self) spec_M spec_M = Inr spec_M"
    by (simp add: scen eval_simps)
  have 3: "broadcast fdiv [Fin 1, Fin 2, Fin 3] [Fin 1, Fin 2] = Inl ValueError"
    using shape_rule_broadcasts [where a = spec_S and v = spec_h and f = fdiv
        and m = "[Fin 1, Fin 2, Fin 3]" and I = "[Fin 1, Fin 2]" and self = ?self
        and prev = spec_M and cur = spec_M and it = 0]
    by simp
  from t 1 2 3 show ?thesis by blast
qed

text \<open>
  C7, as stated, fails: with the measured signal and impulse response of length 3 the
  forward convolution has length 1, the ratio pairs lengths 3 and 1, and the update
  returns a result; \<^verbatim>\<open>LRL2Deconvolve.fit\<close>, whose loop saves no statistics, returns.
\<close>

theorem shape_rule_counterexample:
  "convolve spec_M spec_h = Inr [Fin (1 / 2)]
   \<and> length [Fin (1 / 2) :: npfloat] \<noteq> length spec_M
   \<and> broadcast fdiv spec_M [Fin (1 / 2)] = Inr [Fin (1 / 2), Fin (3 / 2), Fin (1 / 2)]
   \<and> LR_update spec_h spec_M spec_M = Inr spec_M
   \<and> fit_l2 example_l2_square [spec_M] =
       (example_l2_square\<lparr>deconvolved_y_fitted := Some [Fin (1 / 8), Fin (1 / 4), Fin (1 / 8)],
          reconvolved_y_fitted := Some [Fin (3 / 16)]\<rparr>, [], None)"
  by (simp add: example_l2_square_def scen eval_l2 sqrt_9 sqrt_25)



text \<open>
  C9, as the code has it. The measured signal of the scenario is \<open>[0.25, 0.5, 0.25]\<close>.
  The reconvolution of any estimate of shape 3 with the impulse response of length 3
  has shape 1, its mean squared error against the measured signal is rejected, and
  \<^verbatim>\<open>LRDeconvolve.fit\<close> with 50 iterations raises \<^verbatim>\<open>ValueError\<close> when it saves the statistics
  of the first iteration: no \<open>O_50\<close> is stored.
\<close>

theorem scenario_as_computed:
  "convolve spec_S spec_h = Inr true_M
   \<and> (\<forall>est. length est = 3 \<longrightarrow>
        (\<exists>r. convolve est spec_h = Inr [r] \<and> mean_squared_error [r] true_M = Inl ValueError))
   \<and> fit (example_scenario cx) [true_M] =
       ((example_scenario cx)\<lparr>measured_y_fitted := Some true_M\<rparr>, [], Some ValueError)"
proof -
  have "\<exists>r. convolve est spec_h = Inr [r] \<and> mean_squared_error [r] true_M = Inl ValueError"
    if "length est = 3" for est
  proof -
    from that have "est \<noteq> []" by auto
    then have c: "convolve est spec_h = Inr (valid_convolution est spec_h)"
      by (simp add: convolve_eq spec_h_def)
    have "length (valid_convolution est spec_h) = 1"
      using that by (simp add: length_valid_convolution spec_h_def)
    then obtain r where "valid_convolution est spec_h = [r]"
      by (cases "valid_convolution est spec_h") auto
    with c show ?thesis by (simp add: mean_squared_error_def true_M_def)
  qed
  moreover have "convolve spec_S spec_h = Inr true_M"
    "fit (example_scenario cx) [true_M] =
       ((example_scenario cx)\<lparr>measured_y_fitted := Some true_M\<rparr>, [], Some ValueError)"
    by (simp_all add: scen eval_simps)
  ultimately show ?thesis by blast
qed

theorem scenario_as_computed_witness:
  "length true_M = 3
   \<and> (\<exists>r. convolve true_M spec_h = Inr [r] \<and> mean_squared_error [r] true_M = Inl ValueError)"
  using scenario_as_computed [of "[]"] by (simp add: true_M_def)

text \<open>
  C9, as stated, fails: the convolution of the true signal with the impulse response is
  \<open>[0.25, 0.5, 0.25]\<close>, not \<open>[0.25, 0.75, 0.25]\<close>; and from the measured signal of the
  claim every update returns its input, the reconvolution of \<open>O_50\<close> is \<open>[0.5]\<close> of shape
  1, its mean squared error against the measured signal is rejected, and \<^verbatim>\<open>fit\<close> raises.
\<close>

theorem scenario_counterexample:
  "convolve spec_S spec_h = Inr true_M \<and> true_M \<noteq> spec_M
   \<and> recurrence (LR_update spec_h spec_M) spec_M 50 = Inr spec_M
   \<and> convolve spec_M spec_h = Inr [Fin (1 / 2)]
   \<and> mean_squared_error [Fin (1 / 2)] spec_M = Inl ValueError
   \<and> fit (example_scenario [Fin (- 1), Fin 0, Fin 1]) [spec_M] =
       ((example_scenario [Fin (- 1), Fin 0, Fin 1])\<lparr>measured_y_fitted := Some spec_M\<rparr>, [], Some ValueError)"
proof -
  have u: "LR_update spec_h spec_M spec_M = Inr spec_M"
    by (simp add: scen eval_simps)
  have "fit (example_scenario [Fin (- 1), Fin 0, Fin 1]) [spec_M] =
       ((example_scenario [Fin (- 1), Fin 0, Fin 1])\<lparr>measured_y_fitted := Some spec_M\<rparr>, [], Some ValueError)"
    by (simp add: scen eval_simps)
  moreover have "convolve spec_S spec_h = Inr true_M" "true_M \<noteq> spec_M"
    "convolve spec_M spec_h = Inr [Fin (1 / 2)]"
    "mean_squared_error [Fin (1 / 2)] spec_M = Inl ValueError"
    by (simp_all add: scen eval_simps)
  ultimately show ?thesis using recurrence_fixed [of "LR_update spec_h spec_M" spec_M 50] u by simp
qed

text \<open>
  C10, as the code has it. Without a ground truth \<^verbatim>\<open>LRFisterGrid.fit\<close> never returns.
  Whenever the search itself completes, the exception is the \<^verbatim>\<open>KeyError\<close> of reading
  \<^verbatim>\<open>mean_test_deconvolved\<close> from results that hold the ``reconvolved'' metric only.
\<close>

theorem grid_fit_needs_ground_truth:
  assumes "ground_truth_y self = None"
  shows "(\<exists>e. snd (grid_fit sc self X) = Some e)
       \<and> (\<forall>gs. GridSearchCV_fit
              (LRFisterDeconvolve (impulse_response_x self) (impulse_response_y self)
                 (convolved_x self) (Fin (5 / 100)) (iterations self) None False)
              (regularizer_widths self) [(''reconvolved'', neg_reconvolved_mse sc)]
              ''reconvolved'' X = Inr gs \<longrightarrow>
            snd (grid_fit sc self X) = Some KeyError)"
proof -
  let ?search = "GridSearchCV_fit
      (LRFisterDeconvolve (impulse_response_x self) (impulse_response_y self) (convolved_x self)
         (Fin (5 / 100)) (iterations self) (ground_truth_y self) False)
      (regularizer_widths self) (grid_scoring sc (ground_truth_y self)) ''reconvolved'' X"
  have key: "snd (grid_fit sc self X) = Some KeyError" if "?search = Inr gs" for gs
  proof -
    from GridSearchCV_fit_Inr [OF that] obtain splits where
      "cv_results gs = cv_results_of [(''reconvolved'', neg_reconvolved_mse sc)]
         (map (\<lambda>w. map (fit_and_score [(''reconvolved'', neg_reconvolved_mse sc)]
            (clone_with (LRFisterDeconvolve (impulse_response_x self) (impulse_response_y self)
               (convolved_x self) (Fin (5 / 100)) (iterations self) (ground_truth_y self) False) w)
            X) splits) (regularizer_widths self))"
      by (auto simp: grid_scoring_def assms)
    with grid_fit_search_returned [OF that] show ?thesis
      by (auto simp: grid_store_missing)
  qed
  have "\<exists>e. snd (grid_fit sc self X) = Some e"
  proof (cases ?search)
    case (Inl e)
    then show ?thesis by (simp add: grid_fit_def Let_def)
  next
    case (Inr gs)
    with key show ?thesis by blast
  qed
  with key show ?thesis by (simp add: assms grid_scoring_def)
qed

theorem grid_fit_needs_ground_truth_witness:
  "ground_truth_y example_grid_blind = None
   \<and> (\<exists>gs. GridSearchCV_fit
      (LRFisterDeconvolve (impulse_response_x example_grid_blind)
         (impulse_response_y example_grid_blind) (convolved_x example_grid_blind)
         (Fin (5 / 100)) (iterations example_grid_blind) None False)
      (regularizer_widths example_grid_blind)
      [(''reconvolved'', neg_reconvolved_mse spec_scorers)] ''reconvolved'' example_rows = Inr gs)
   \<and> snd (grid_fit spec_scorers example_grid_blind example_rows) = Some KeyError"
proof -
  have gt: "ground_truth_y example_grid_blind = None"
    by (simp add: example_grid_blind_def LRFisterGrid_def)
  from grid_fit_needs_ground_truth [OF gt, of spec_scorers example_rows] search_example_blind gt
  show ?thesis by blast
qed

text \<open>
  C10, as stated, fails: on a batch of three rows the search rejects five folds and
  \<^verbatim>\<open>fit\<close> raises \<^verbatim>\<open>ValueError\<close>, not a missing-key error.
\<close>

theorem grid_fit_missing_key_counterexample:
  "ground_truth_y example_grid_blind = None
   \<and> grid_fit spec_scorers example_grid_blind [[Fin 1], [Fin 2], [Fin 3]]
       = (example_grid_blind, Some ValueError)"
  by (simp add: example_grid_blind_def LRFisterGrid_def grid_fit_def GridSearchCV_fit_def
        grid_scoring_def kfold_split_def)



end
